theory Spec2Isabelle
  imports Main "HOL-Library.Word"
begin

section \<open>Data model\<close>

text \<open>
  Go strings and byte slices are byte sequences; both are modelled as \<open>string\<close>.
  A \<open>[]byte\<close> result that may be \<open>nil\<close> is a \<open>bytes option\<close>, \<open>None\<close> being \<open>nil\<close>
  (an empty but non-nil slice is \<open>Some []\<close>).
  A \<open>time.Time\<close> is the wall-clock instant in nanoseconds since the Unix epoch, a
  \<open>time.Duration\<close> is a signed 64-bit count of nanoseconds.
\<close>

type_synonym bytes = string
type_synonym Time = int
type_synonym Duration = "64 word"

subsection \<open>errors.go\<close>

text \<open>
  The sentinel errors of errors.go, the errors produced by the collaborators
  (the KV API, io, encoding/json, bcrypt: \<open>External\<close>, carrying the text of the error),
  the errors of the jwt library (\<open>JWTError\<close>, carrying the sentinels of that library
  which the error matches), and \<open>AppError\<close>, which wraps an underlying error with the
  operation name, a message and a code.
\<close>

datatype jwt_sentinel =
    TokenMalformed | TokenUnverifiable | TokenSignatureInvalid | TokenInvalidClaims
  | TokenExpired | TokenNotValidYet | SignatureInvalid | InvalidKeyType

text \<open>
  The package internal/errors declares sentinels and an \<open>AppError\<close> of its own, used by the
  packages internal/kv and internal/auth: they are values and a type distinct from those of
  errors.go.
\<close>

datatype apperrors_sentinel =
    apperrors_ErrUserNotFound | apperrors_ErrUserAlreadyExists
  | apperrors_ErrInvalidCredentials | apperrors_ErrInvalidToken | apperrors_ErrTokenExpired
  | apperrors_ErrKVOperationFailed | apperrors_ErrInvalidInput

datatype error =
    ErrInvalidConfig | ErrMissingRequiredConfig | ErrInvalidAuth
  | ErrUserNotFound | ErrUserAlreadyExists | ErrInvalidCredentials
  | ErrInvalidToken | ErrTokenExpired
  | ErrInvalidInput
  | ErrKVOperationFailed
  | External string
  | JWTError "jwt_sentinel list"
  | AppError string error string int
  | apperrors_Err apperrors_sentinel
  | apperrors_AppError string error string int

definition NewAppError :: "string \<Rightarrow> error \<Rightarrow> string \<Rightarrow> int \<Rightarrow> error" where
  "NewAppError op err message code = AppError op err message code"

definition apperrors_NewAppError :: "string \<Rightarrow> error \<Rightarrow> string \<Rightarrow> int \<Rightarrow> error" where
  "apperrors_NewAppError op err message code = apperrors_AppError op err message code"

text \<open>\<open>errors.Is\<close> along the \<open>Unwrap\<close> chain of the two \<open>AppError\<close> types.\<close>

fun errors_Is :: "error \<Rightarrow> error \<Rightarrow> bool" where
  "errors_Is (AppError op err message code) target =
     (AppError op err message code = target \<or> errors_Is err target)"
| "errors_Is (apperrors_AppError op err message code) target =
     (apperrors_AppError op err message code = target \<or> errors_Is err target)"
| "errors_Is err target = (err = target)"

definition IsUserNotFound :: "error \<Rightarrow> bool" where
  "IsUserNotFound err = errors_Is err ErrUserNotFound"

definition IsUserAlreadyExists :: "error \<Rightarrow> bool" where
  "IsUserAlreadyExists err = errors_Is err ErrUserAlreadyExists"

definition IsInvalidCredentials :: "error \<Rightarrow> bool" where
  "IsInvalidCredentials err = errors_Is err ErrInvalidCredentials"

definition IsInvalidToken :: "error \<Rightarrow> bool" where
  "IsInvalidToken err = errors_Is err ErrInvalidToken"

subsection \<open>Records of the SDK\<close>

record User =
  ID :: string
  Email :: string
  PasswordHash :: string
  CreatedAt :: Time
  UpdatedAt :: Time

record UserInfo =
  InfoID :: string
  InfoEmail :: string

text \<open>
  \<open>jwt.RegisteredClaims\<close>: the three dates are pointers in Go, \<open>None\<close> is the absent claim.
  Issuer, subject, audience and token id are never set nor checked by this SDK.
\<close>

record RegisteredClaims =
  ExpiresAt :: "Time option"
  IssuedAt :: "Time option"
  NotBefore :: "Time option"

record Claims = RegisteredClaims +
  UserID :: string
  ClaimsEmail :: string

record ClientOptions =
  APIToken :: string
  APIKey :: string
  OptEmail :: string
  AccountID :: string
  NamespaceID :: string
  JWTSecret :: string
  JWTExpirationHours :: "64 word"

record Client =
  accountID :: string
  namespaceID :: string
  jwtSecret :: bytes
  jwtExpiry :: Duration

section \<open>Collaborators\<close>

subsection \<open>The remote KV store\<close>

text \<open>
  The Workers KV namespace is a map from (account, namespace, key) to the stored bytes;
  a read sees the latest write (the eventual consistency of the service is not modelled).
  Every remote call can fail: \<open>faults\<close> is the schedule of what happens to the calls to
  come, one entry per call, the empty schedule meaning that every later call goes through.
  \<^item> \<open>ApiError e\<close>: the API call returns the error \<open>e\<close> and has no effect;
  \<^item> \<open>ReadError n e\<close>: (reads only) the call succeeds, and reading the response body
    breaks with \<open>e\<close> after \<open>n\<close> bytes.
\<close>

datatype fault = NoFault | ApiError error | ReadError nat error

record world =
  store :: "string \<times> string \<times> string \<rightharpoonup> bytes"
  faults :: "fault list"

definition next_fault :: "world \<Rightarrow> fault \<times> world" where
  "next_fault w = (case faults w of [] \<Rightarrow> (NoFault, w) | f # fs \<Rightarrow> (f, w\<lparr>faults := fs\<rparr>))"

text \<open>The body of an HTTP response: the bytes a read obtains, and the error that ends it, if any.\<close>

datatype body = Body bytes "error option"

text \<open>
  \<open>KV.Namespaces.Values.Get\<close>, \<open>Update\<close> and \<open>Delete\<close> of the Cloudflare client, called with
  the namespace id, the key and the account id. A missing key is an error of the API
  (status 404).
\<close>

definition not_found :: error where
  "not_found = External ''404 Not Found: key not found''"

definition Values_Get ::
    "world \<Rightarrow> string \<Rightarrow> string \<Rightarrow> string \<Rightarrow> world \<times> (error + body)" where
  "Values_Get w namespace key account =
     (case next_fault w of
        (ApiError e, w') \<Rightarrow> (w', Inl e)
      | (f, w') \<Rightarrow>
          (case store w' (account, namespace, key) of
             None \<Rightarrow> (w', Inl not_found)
           | Some v \<Rightarrow>
               (case f of
                  ReadError n e \<Rightarrow> (w', Inr (Body (take n v) (Some e)))
                | _ \<Rightarrow> (w', Inr (Body v None)))))"

definition Values_Update ::
    "world \<Rightarrow> string \<Rightarrow> string \<Rightarrow> string \<Rightarrow> bytes \<Rightarrow> world \<times> error option" where
  "Values_Update w namespace key account v =
     (case next_fault w of
        (ApiError e, w') \<Rightarrow> (w', Some e)
      | (f, w') \<Rightarrow> (w'\<lparr>store := (store w')((account, namespace, key) \<mapsto> v)\<rparr>, None))"

definition Values_Delete ::
    "world \<Rightarrow> string \<Rightarrow> string \<Rightarrow> string \<Rightarrow> world \<times> error option" where
  "Values_Delete w namespace key account =
     (case next_fault w of
        (ApiError e, w') \<Rightarrow> (w', Some e)
      | (f, w') \<Rightarrow> (w'\<lparr>store := (store w')((account, namespace, key) := None)\<rparr>, None))"

text \<open>
  \<open>io.ReadAll\<close> returns the data it has read, never \<open>nil\<close>, together with the read error
  if there was one.
\<close>

definition io_ReadAll :: "body \<Rightarrow> bytes option \<times> error option" where
  "io_ReadAll r = (case r of Body b e \<Rightarrow> (Some b, e))"

subsection \<open>encoding/json and bcrypt\<close>

text \<open>
  The JSON codec of \<open>User\<close> and the bcrypt functions are parameters of the model.
  \<open>bcrypt.GenerateFromPassword\<close> draws a salt from the entropy source: the salt is its
  first argument here. \<open>bcrypt.CompareHashAndPassword hash password\<close> returns \<open>nil\<close>
  (\<open>None\<close>) when the password matches.
\<close>

record lib =
  json_Marshal :: "User \<Rightarrow> error + bytes"
  json_Unmarshal :: "bytes \<Rightarrow> error + User"
  bcrypt_GenerateFromPassword :: "bytes \<Rightarrow> bytes \<Rightarrow> error + bytes"
  bcrypt_CompareHashAndPassword :: "bytes \<Rightarrow> bytes \<Rightarrow> error option"

subsection \<open>The jwt library\<close>

text \<open>
  The compact serialisation of a token (the base64url text of the JSON header and of the
  JSON claims, followed by the signature) is taken as an injective encoding: a token string
  is either \<open>Malformed\<close> (one of its segments does not decode) or \<open>Compact alg claims sig\<close>, carrying the
  \<open>alg\<close> field of its header, its claims and its signature. The message authentication
  code is symbolic: \<open>MAC h key alg claims\<close> is the HMAC, under the hash of method \<open>h\<close> and
  the key \<open>key\<close>, of the signing string of header \<open>alg\<close> and claims \<open>claims\<close>;
  \<open>OtherSignature\<close> is any other signature value.
\<close>

datatype signature = MAC string bytes string Claims | OtherSignature bytes

datatype tokenString = Malformed string | Compact string Claims signature

text \<open>
  The signing methods the library registers, by their Go type: the type assertion of the
  key function of \<open>parseToken\<close> looks at this type.
\<close>

datatype SigningMethod =
    SigningMethodHMAC string
  | SigningMethodRSA string
  | SigningMethodRSAPSS string
  | SigningMethodECDSA string
  | SigningMethodEd25519
  | signingMethodNone

definition SigningMethodHS256 :: SigningMethod where
  "SigningMethodHS256 = SigningMethodHMAC ''HS256''"

definition GetSigningMethod :: "string \<Rightarrow> SigningMethod option" where
  "GetSigningMethod alg =
     (if alg \<in> set [''HS256'', ''HS384'', ''HS512''] then Some (SigningMethodHMAC alg)
      else if alg \<in> set [''RS256'', ''RS384'', ''RS512''] then Some (SigningMethodRSA alg)
      else if alg \<in> set [''PS256'', ''PS384'', ''PS512''] then Some (SigningMethodRSAPSS alg)
      else if alg \<in> set [''ES256'', ''ES384'', ''ES512''] then Some (SigningMethodECDSA alg)
      else if alg = ''EdDSA'' then Some SigningMethodEd25519
      else if alg = ''none'' then Some signingMethodNone
      else None)"

definition Alg :: "SigningMethod \<Rightarrow> string" where
  "Alg m =
     (case m of
        SigningMethodHMAC a \<Rightarrow> a | SigningMethodRSA a \<Rightarrow> a | SigningMethodRSAPSS a \<Rightarrow> a
      | SigningMethodECDSA a \<Rightarrow> a | SigningMethodEd25519 \<Rightarrow> ''EdDSA''
      | signingMethodNone \<Rightarrow> ''none'')"

record jwt_Token =
  Method :: SigningMethod
  HeaderAlg :: string
  TokenClaims :: Claims
  Signature :: signature
  Valid :: bool

text \<open>
  \<open>jwt.TimePrecision\<close> is one second: \<open>jwt.NewNumericDate\<close> truncates the time to a whole
  number of seconds.
\<close>

definition Second :: int where
  "Second = 1000000000"

definition Truncate :: "Time \<Rightarrow> int \<Rightarrow> Time" where
  "Truncate t d = t - t mod d"

definition NewNumericDate :: "Time \<Rightarrow> Time option" where
  "NewNumericDate t = Some (Truncate t Second)"

text \<open>
  \<open>Verify\<close> with a key of type \<open>[]byte\<close> (the only type of key this SDK hands over):
  an HMAC method recomputes the code; every other method refuses the key type.
\<close>

definition Verify :: "SigningMethod \<Rightarrow> string \<Rightarrow> Claims \<Rightarrow> signature \<Rightarrow> bytes \<Rightarrow> error option" where
  "Verify m alg claims sg key =
     (case m of
        SigningMethodHMAC h \<Rightarrow>
          (if sg = MAC h key alg claims then None else Some (JWTError [SignatureInvalid]))
      | _ \<Rightarrow> Some (JWTError [InvalidKeyType]))"

text \<open>\<open>jwt.NewWithClaims(method, claims)\<close> followed by \<open>SignedString(key)\<close>, the key a \<open>[]byte\<close>.\<close>

definition SignedString :: "SigningMethod \<Rightarrow> Claims \<Rightarrow> bytes \<Rightarrow> error + tokenString" where
  "SignedString m claims key =
     (case m of
        SigningMethodHMAC h \<Rightarrow> Inr (Compact (Alg m) claims (MAC h key (Alg m) claims))
      | _ \<Rightarrow> Inl (JWTError [InvalidKeyType]))"

text \<open>
  The default validator at time \<open>now\<close>: the expiry and the not-before date are checked when
  present (issued-at is not, by default), and the errors are collected.
\<close>

definition Validate :: "Claims \<Rightarrow> Time \<Rightarrow> jwt_sentinel list" where
  "Validate claims now =
     (case ExpiresAt claims of
        None \<Rightarrow> []
      | Some exp \<Rightarrow> if now < exp then [] else [TokenExpired]) @
     (case NotBefore claims of
        None \<Rightarrow> []
      | Some nbf \<Rightarrow> if \<not> now < nbf then [] else [TokenNotValidYet])"

text \<open>
  \<open>jwt.ParseWithClaims\<close> with the default parser options: decode, look the method of the
  header up, ask the key function for the key, verify the signature, validate the claims.
  On an error the Go function also returns the token built so far; \<open>parseToken\<close> never looks
  at it, so it is dropped here.
\<close>

definition ParseWithClaims ::
    "tokenString \<Rightarrow> (jwt_Token \<Rightarrow> error + bytes) \<Rightarrow> Time \<Rightarrow> error + jwt_Token" where
  "ParseWithClaims ts keyFunc now =
     (case ts of
        Malformed x \<Rightarrow> Inl (JWTError [TokenMalformed])
      | Compact alg claims sg \<Rightarrow>
          (case GetSigningMethod alg of
             None \<Rightarrow> Inl (JWTError [TokenUnverifiable])
           | Some m \<Rightarrow>
               (let token = \<lparr>Method = m, HeaderAlg = alg, TokenClaims = claims,
                              Signature = sg, Valid = False\<rparr>
                in case keyFunc token of
                     Inl err \<Rightarrow> Inl (JWTError [TokenUnverifiable])
                   | Inr key \<Rightarrow>
                       (case Verify m alg claims sg key of
                          Some (JWTError ks) \<Rightarrow> Inl (JWTError (TokenSignatureInvalid # ks))
                        | Some err \<Rightarrow> Inl (JWTError [TokenSignatureInvalid])
                        | None \<Rightarrow>
                            (case Validate claims now of
                               [] \<Rightarrow> Inr (token\<lparr>Valid := True\<rparr>)
                             | k # ks \<Rightarrow> Inl (JWTError (TokenInvalidClaims # k # ks)))))))"

section \<open>client.go\<close>

subsection \<open>Construction\<close>

definition Hour :: Duration where
  "Hour = 3600000000000"

text \<open>\<open>ClientOptions.Validate\<close>: \<open>None\<close> is the \<open>nil\<close> error.\<close>

definition Validate_options :: "ClientOptions \<Rightarrow> error option" where
  "Validate_options opts =
     (if AccountID opts = [] then Some (External ''AccountID is required'')
      else if NamespaceID opts = [] then Some (External ''NamespaceID is required'')
      else if JWTSecret opts = [] then Some (External ''JWTSecret is required'')
      else if APIToken opts = [] \<and> (APIKey opts = [] \<or> OptEmail opts = [])
        then Some (External ''either APIToken or both APIKey and Email are required'')
      else None)"

text \<open>
  \<open>NewClient\<close>; \<open>None\<close> is the \<open>nil\<close> options pointer. \<open>JWTExpirationHours\<close> is a Go
  \<open>int\<close>, 64 bits wide on the platforms of the SDK; the product
  \<open>time.Duration(hours) * time.Hour\<close> is a 64-bit product and wraps around.
\<close>

definition NewClient :: "ClientOptions option \<Rightarrow> error + Client" where
  "NewClient o_opts =
     (case o_opts of
        None \<Rightarrow> Inl ErrInvalidConfig
      | Some opts \<Rightarrow>
          (case Validate_options opts of
             Some err \<Rightarrow> Inl err
           | None \<Rightarrow>
               (let jwtExpiry0 = JWTExpirationHours opts * Hour;
                    jwtExpiry1 = (if jwtExpiry0 = 0 then 24 * Hour else jwtExpiry0)
                in Inr \<lparr>accountID = AccountID opts, namespaceID = NamespaceID opts,
                         jwtSecret = JWTSecret opts, jwtExpiry = jwtExpiry1\<rparr>)))"

subsection \<open>Keys and KV wrappers\<close>

definition getUserKey :: "string \<Rightarrow> string" where
  "getUserKey email = ''user:email:'' @ email"

definition getUserIDKey :: "string \<Rightarrow> string" where
  "getUserIDKey userID = ''user:id:'' @ userID"

text \<open>The place of a key of the client's namespace in the store.\<close>

definition slot :: "Client \<Rightarrow> string \<Rightarrow> string \<times> string \<times> string" where
  "slot c key = (accountID c, namespaceID c, key)"

text \<open>\<open>readAll\<close>, the helper of kv.go.\<close>

definition readAll :: "body \<Rightarrow> bytes option \<times> error option" where
  "readAll r = io_ReadAll r"

definition kvGet :: "Client \<Rightarrow> world \<Rightarrow> string \<Rightarrow> world \<times> (bytes option \<times> error option)" where
  "kvGet c w key =
     (case Values_Get w (namespaceID c) key (accountID c) of
        (w', Inl err) \<Rightarrow> (w', (None, Some err))
      | (w', Inr resp) \<Rightarrow> (w', readAll resp))"

definition kvSet :: "Client \<Rightarrow> world \<Rightarrow> string \<Rightarrow> bytes \<Rightarrow> world \<times> error option" where
  "kvSet c w key v = Values_Update w (namespaceID c) key (accountID c) v"

definition kvDelete :: "Client \<Rightarrow> world \<Rightarrow> string \<Rightarrow> world \<times> error option" where
  "kvDelete c w key = Values_Delete w (namespaceID c) key (accountID c)"

text \<open>
  \<open>KVGet\<close> of kv.go, the exported sibling of \<open>kvGet\<close>: it returns \<open>nil\<close> data with every
  error, a failed read of the body included.
\<close>

definition KVGet :: "Client \<Rightarrow> world \<Rightarrow> string \<Rightarrow> world \<times> (bytes option \<times> error option)" where
  "KVGet c w key =
     (case Values_Get w (namespaceID c) key (accountID c) of
        (w', Inl err) \<Rightarrow>
          (w', (None, Some (NewAppError ''Client.KVGet'' err (''failed to get key: '' @ key) 500)))
      | (w', Inr resp) \<Rightarrow>
          (case readAll resp of
             (v, Some err) \<Rightarrow>
               (w', (None, Some (NewAppError ''Client.KVGet'' err
                                   (''failed to read response for key: '' @ key) 500)))
           | (v, None) \<Rightarrow> (w', (v, None))))"

text \<open>A \<open>nil\<close> slice reads as the empty byte sequence.\<close>

definition bytes_of :: "bytes option \<Rightarrow> bytes" where
  "bytes_of d = (case d of None \<Rightarrow> [] | Some b \<Rightarrow> b)"

subsection \<open>User records\<close>

definition toJSON :: "lib \<Rightarrow> User \<Rightarrow> error + bytes" where
  "toJSON L u = json_Marshal L u"

definition userFromJSON :: "lib \<Rightarrow> bytes option \<Rightarrow> error + User" where
  "userFromJSON L d =
     (case json_Unmarshal L (bytes_of d) of Inl err \<Rightarrow> Inl err | Inr user \<Rightarrow> Inr user)"

definition getUserByEmail :: "lib \<Rightarrow> Client \<Rightarrow> world \<Rightarrow> string \<Rightarrow> world \<times> (error + User)" where
  "getUserByEmail L c w email =
     (let userKey = getUserKey email
      in case kvGet c w userKey of
           (w', (userData, Some err)) \<Rightarrow>
             (w', Inl (NewAppError ''Client.getUserByEmail'' ErrUserNotFound ''user not found'' 404))
         | (w', (userData, None)) \<Rightarrow> (w', userFromJSON L userData))"

definition saveUser :: "lib \<Rightarrow> Client \<Rightarrow> world \<Rightarrow> User \<Rightarrow> world \<times> error option" where
  "saveUser L c w user =
     (case toJSON L user of
        Inl err \<Rightarrow> (w, Some (NewAppError ''Client.saveUser'' err ''failed to serialize user'' 500))
      | Inr userData \<Rightarrow>
          (let userKey = getUserKey (Email user)
           in case kvSet c w userKey userData of
                (w1, Some err) \<Rightarrow>
                  (w1, Some (NewAppError ''Client.saveUser'' err ''failed to save user'' 500))
              | (w1, None) \<Rightarrow>
                  (let idKey = getUserIDKey (ID user)
                   in case kvSet c w1 idKey (Email user) of
                        (w2, Some err) \<Rightarrow>
                          (w2, Some (NewAppError ''Client.saveUser'' err
                                       ''failed to save user ID mapping'' 500))
                      | (w2, None) \<Rightarrow> (w2, None))))"

definition GetUserByID :: "lib \<Rightarrow> Client \<Rightarrow> world \<Rightarrow> string \<Rightarrow> world \<times> (error + User)" where
  "GetUserByID L c w userID =
     (let idKey = getUserIDKey userID
      in case kvGet c w idKey of
           (w', (emailData, Some err)) \<Rightarrow>
             (w', Inl (NewAppError ''Client.GetUserByID'' ErrUserNotFound ''user not found'' 404))
         | (w', (emailData, None)) \<Rightarrow> getUserByEmail L c w' (bytes_of emailData))"

definition GetUserByEmail :: "lib \<Rightarrow> Client \<Rightarrow> world \<Rightarrow> string \<Rightarrow> world \<times> (error + User)" where
  "GetUserByEmail L c w email = getUserByEmail L c w email"

definition DeleteUser :: "lib \<Rightarrow> Client \<Rightarrow> world \<Rightarrow> string \<Rightarrow> world \<times> error option" where
  "DeleteUser L c w email =
     (case getUserByEmail L c w email of
        (w0, Inl err) \<Rightarrow> (w0, Some err)
      | (w0, Inr user) \<Rightarrow>
          (let userKey = getUserKey email
           in case kvDelete c w0 userKey of
                (w1, Some err) \<Rightarrow>
                  (w1, Some (NewAppError ''Client.DeleteUser'' err ''failed to delete user'' 500))
              | (w1, None) \<Rightarrow>
                  (let idKey = getUserIDKey (ID user)
                   in case kvDelete c w1 idKey of
                        (w2, Some err) \<Rightarrow>
                          (w2, Some (NewAppError ''Client.DeleteUser'' err
                                       ''failed to delete user ID mapping'' 500))
                      | (w2, None) \<Rightarrow> (w2, None))))"

subsection \<open>Register, Login, ValidateToken\<close>

record LoginResponse =
  Token :: tokenString
  LoginExpiresAt :: Time
  LoginUser :: UserInfo

definition Add :: "Time \<Rightarrow> Duration \<Rightarrow> Time" where
  "Add t d = t + sint d"

text \<open>
  \<open>Register\<close>. The values the function draws from its environment are arguments:
  \<open>uuid\<close> is the string of \<open>uuid.New()\<close>, \<open>salt\<close> the entropy bcrypt draws, \<open>now\<close> the reading
  of \<open>time.Now()\<close>. The error of the existence probe is discarded, as in the source: only
  the data decides.
\<close>

definition Register ::
    "lib \<Rightarrow> Client \<Rightarrow> world \<Rightarrow> string \<Rightarrow> string \<Rightarrow> string \<Rightarrow> bytes \<Rightarrow> Time
      \<Rightarrow> world \<times> (error + User)" where
  "Register L c w email password uuid salt now =
     (if email = [] \<or> password = []
      then (w, Inl (NewAppError ''Client.Register'' ErrInvalidInput
                      ''email and password are required'' 400))
      else
        (let userKey = getUserKey email
         in case kvGet c w userKey of
              (w0, (Some existingData, err0)) \<Rightarrow>
                (w0, Inl (NewAppError ''Client.Register'' ErrUserAlreadyExists
                            ''user already exists'' 409))
            | (w0, (None, err0)) \<Rightarrow>
                (case bcrypt_GenerateFromPassword L salt password of
                   Inl err \<Rightarrow>
                     (w0, Inl (NewAppError ''Client.Register'' err ''failed to hash password'' 500))
                 | Inr passwordHash \<Rightarrow>
                     (let user = \<lparr>ID = uuid, Email = email, PasswordHash = passwordHash,
                                   CreatedAt = now, UpdatedAt = now\<rparr>
                      in case saveUser L c w0 user of
                           (w1, Some err) \<Rightarrow> (w1, Inl err)
                         | (w1, None) \<Rightarrow> (w1, Inr user)))))"

text \<open>
  \<open>Login\<close> reads the clock three times: \<open>t1\<close> for the expiry, \<open>t2\<close> for issued-at and
  \<open>t3\<close> for not-before.
\<close>

definition Login ::
    "lib \<Rightarrow> Client \<Rightarrow> world \<Rightarrow> string \<Rightarrow> string \<Rightarrow> Time \<Rightarrow> Time \<Rightarrow> Time
      \<Rightarrow> world \<times> (error + LoginResponse)" where
  "Login L c w email password t1 t2 t3 =
     (if email = [] \<or> password = []
      then (w, Inl (NewAppError ''Client.Login'' ErrInvalidInput
                      ''email and password are required'' 400))
      else
        (case getUserByEmail L c w email of
           (w0, Inl err) \<Rightarrow>
             (w0, Inl (NewAppError ''Client.Login'' ErrUserNotFound ''user not found'' 404))
         | (w0, Inr user) \<Rightarrow>
             (case bcrypt_CompareHashAndPassword L (PasswordHash user) password of
                Some err \<Rightarrow>
                  (w0, Inl (NewAppError ''Client.Login'' ErrInvalidCredentials
                              ''invalid credentials'' 401))
              | None \<Rightarrow>
                  (let expiresAt = Add t1 (jwtExpiry c);
                       claims = \<lparr>ExpiresAt = NewNumericDate expiresAt,
                                 IssuedAt = NewNumericDate t2,
                                 NotBefore = NewNumericDate t3,
                                 UserID = ID user, ClaimsEmail = Email user\<rparr>
                   in case SignedString SigningMethodHS256 claims (jwtSecret c) of
                        Inl err \<Rightarrow>
                          (w0, Inl (NewAppError ''Client.Login'' err
                                      ''failed to generate token'' 500))
                      | Inr tokenString \<Rightarrow>
                          (w0, Inr \<lparr>Token = tokenString, LoginExpiresAt = expiresAt,
                                     LoginUser = \<lparr>InfoID = ID user,
                                                  InfoEmail = Email user\<rparr>\<rparr>)))))"

text \<open>The key function of \<open>parseToken\<close>: the type assertion to \<open>*jwt.SigningMethodHMAC\<close>.\<close>

definition keyFunc :: "Client \<Rightarrow> jwt_Token \<Rightarrow> error + bytes" where
  "keyFunc c token =
     (case Method token of
        SigningMethodHMAC h \<Rightarrow> Inr (jwtSecret c)
      | _ \<Rightarrow> Inl (External (''unexpected signing method: '' @ HeaderAlg token)))"

definition parseToken :: "Client \<Rightarrow> tokenString \<Rightarrow> Time \<Rightarrow> error + Claims" where
  "parseToken c ts now =
     (case ParseWithClaims ts (keyFunc c) now of
        Inl err \<Rightarrow> Inl (NewAppError ''Client.parseToken'' err ''invalid token'' 401)
      | Inr token \<Rightarrow>
          (if \<not> Valid token
           then Inl (NewAppError ''Client.parseToken'' ErrInvalidToken ''invalid token claims'' 401)
           else Inr (TokenClaims token)))"

definition ValidateToken ::
    "lib \<Rightarrow> Client \<Rightarrow> world \<Rightarrow> tokenString \<Rightarrow> Time \<Rightarrow> world \<times> (error + User)" where
  "ValidateToken L c w ts now =
     (case parseToken c ts now of
        Inl err \<Rightarrow> (w, Inl err)
      | Inr claims \<Rightarrow> GetUserByID L c w (UserID claims))"

section \<open>The packages internal/kv and internal/auth\<close>

text \<open>
  The service of internal/auth is the sibling of the SDK client, over the KV client of
  internal/kv. Its user type has the fields of \<open>User\<close>, and its two key functions are those
  of client.go; both are shared here.
\<close>

record kv_Client =
  kv_accountID :: string
  kv_namespaceID :: string

text \<open>
  \<open>WriteOptions\<close> of internal/kv. The store holds neither expiry nor metadata of an entry,
  so the options, passed on to the API in Go, leave no trace in it.
\<close>

record WriteOptions =
  ExpirationTTL :: int
  Metadata :: string

definition kv_Get :: "kv_Client \<Rightarrow> world \<Rightarrow> string \<Rightarrow> world \<times> (bytes option \<times> error option)" where
  "kv_Get k w key =
     (case Values_Get w (kv_namespaceID k) key (kv_accountID k) of
        (w', Inl err) \<Rightarrow>
          (w', (None, Some (apperrors_NewAppError ''kv.Get'' err
                              (''failed to get key: '' @ key) 500)))
      | (w', Inr resp) \<Rightarrow>
          (case io_ReadAll resp of
             (v, Some err) \<Rightarrow>
               (w', (None, Some (apperrors_NewAppError ''kv.Get'' err
                                   (''failed to read response for key: '' @ key) 500)))
           | (v, None) \<Rightarrow> (w', (v, None))))"

definition kv_Set ::
    "kv_Client \<Rightarrow> world \<Rightarrow> string \<Rightarrow> bytes \<Rightarrow> WriteOptions option \<Rightarrow> world \<times> error option" where
  "kv_Set k w key v opts =
     (case Values_Update w (kv_namespaceID k) key (kv_accountID k) v of
        (w', Some err) \<Rightarrow>
          (w', Some (apperrors_NewAppError ''kv.Set'' err (''failed to set key: '' @ key) 500))
      | (w', None) \<Rightarrow> (w', None))"

record Service =
  kvClient :: kv_Client
  svc_jwtSecret :: bytes
  jwtExpiration :: Duration

record RegisterRequest =
  ReqEmail :: string
  ReqPassword :: string

definition ToJSON :: "lib \<Rightarrow> User \<Rightarrow> error + bytes" where
  "ToJSON L u = json_Marshal L u"

text \<open>\<open>Service.Register\<close>, with the same three values drawn from the environment as \<open>Register\<close>.\<close>

definition Service_Register ::
    "lib \<Rightarrow> Service \<Rightarrow> world \<Rightarrow> RegisterRequest \<Rightarrow> string \<Rightarrow> bytes \<Rightarrow> Time
      \<Rightarrow> world \<times> (error + User)" where
  "Service_Register L s w req uuid salt now =
     (if ReqEmail req = [] \<or> ReqPassword req = []
      then (w, Inl (apperrors_NewAppError ''auth.Register'' (apperrors_Err apperrors_ErrInvalidInput)
                      ''email and password are required'' 400))
      else
        (let userKey = getUserKey (ReqEmail req)
         in case kv_Get (kvClient s) w userKey of
              (w0, (Some existingData, err0)) \<Rightarrow>
                (w0, Inl (apperrors_NewAppError ''auth.Register''
                            (apperrors_Err apperrors_ErrUserAlreadyExists)
                            ''user already exists'' 409))
            | (w0, (None, err0)) \<Rightarrow>
                (case bcrypt_GenerateFromPassword L salt (ReqPassword req) of
                   Inl err \<Rightarrow>
                     (w0, Inl (apperrors_NewAppError ''auth.Register'' err
                                 ''failed to hash password'' 500))
                 | Inr passwordHash \<Rightarrow>
                     (let user = \<lparr>ID = uuid, Email = ReqEmail req, PasswordHash = passwordHash,
                                   CreatedAt = now, UpdatedAt = now\<rparr>
                      in case ToJSON L user of
                           Inl err \<Rightarrow>
                             (w0, Inl (apperrors_NewAppError ''auth.Register'' err
                                         ''failed to serialize user'' 500))
                         | Inr userData \<Rightarrow>
                             (case kv_Set (kvClient s) w0 userKey userData None of
                                (w1, Some err) \<Rightarrow>
                                  (w1, Inl (apperrors_NewAppError ''auth.Register'' err
                                              ''failed to save user'' 500))
                              | (w1, None) \<Rightarrow>
                                  (let idKey = getUserIDKey (ID user)
                                   in case kv_Set (kvClient s) w1 idKey (ReqEmail req) None of
                                        (w2, Some err) \<Rightarrow>
                                          (w2, Inl (apperrors_NewAppError ''auth.Register'' err
                                                      ''failed to save user ID mapping'' 500))
                                      | (w2, None) \<Rightarrow> (w2, Inr user)))))))"

section \<open>Notions used by the statements\<close>

text \<open>The next \<open>n\<close> remote calls go through (none of them is failed by the schedule).\<close>

definition calls_succeed :: "nat \<Rightarrow> world \<Rightarrow> bool" where
  "calls_succeed n w = list_all (\<lambda>f. f = NoFault) (take n (faults w))"

text \<open>
  What the properties below need of the collaborators, each stated for the values at hand:
  the JSON codec gives the id and the password hash of a user back, and bcrypt accepts the
  password it has hashed.
\<close>

definition json_preserves :: "lib \<Rightarrow> User \<Rightarrow> bool" where
  "json_preserves L u =
     (case json_Marshal L u of
        Inl e \<Rightarrow> True
      | Inr d \<Rightarrow>
          (case json_Unmarshal L d of
             Inl e \<Rightarrow> False
           | Inr u' \<Rightarrow> ID u' = ID u \<and> PasswordHash u' = PasswordHash u))"

definition bcrypt_accepts_own :: "lib \<Rightarrow> bytes \<Rightarrow> bytes \<Rightarrow> bool" where
  "bcrypt_accepts_own L salt password =
     (case bcrypt_GenerateFromPassword L salt password of
        Inl e \<Rightarrow> True
      | Inr h \<Rightarrow> bcrypt_CompareHashAndPassword L h password = None)"

text \<open>The claims \<open>Login\<close> builds for a user, and the token it signs over them.\<close>

definition login_claims :: "Client \<Rightarrow> User \<Rightarrow> Time \<Rightarrow> Time \<Rightarrow> Time \<Rightarrow> Claims" where
  "login_claims c user t1 t2 t3 =
     \<lparr>ExpiresAt = NewNumericDate (Add t1 (jwtExpiry c)),
      IssuedAt = NewNumericDate t2,
      NotBefore = NewNumericDate t3,
      UserID = ID user, ClaimsEmail = Email user\<rparr>"

definition hs256_token :: "bytes \<Rightarrow> Claims \<Rightarrow> tokenString" where
  "hs256_token key claims = Compact ''HS256'' claims (MAC ''HS256'' key ''HS256'' claims)"

text \<open>The \<open>alg\<close> field of the header of a token string, and the claims it carries.\<close>

definition header_alg :: "tokenString \<Rightarrow> string option" where
  "header_alg ts = (case ts of Malformed x \<Rightarrow> None | Compact alg claims sg \<Rightarrow> Some alg)"

definition token_claims :: "tokenString \<Rightarrow> Claims option" where
  "token_claims ts = (case ts of Malformed x \<Rightarrow> None | Compact alg claims sg \<Rightarrow> Some claims)"

subsection \<open>A concrete instance\<close>

text \<open>
  A small instance on which the theorems are evaluated: a field codec standing for JSON
  (it keeps id, email and hash, and drops the dates), a transparent stand-in for bcrypt
  with the 72-byte limit of the real one, a client with the default lifetime and an empty
  namespace.
\<close>

definition example_marshal :: "User \<Rightarrow> error + bytes" where
  "example_marshal u = Inr (ID u @ ''|'' @ Email u @ ''|'' @ PasswordHash u)"

definition example_unmarshal :: "bytes \<Rightarrow> error + User" where
  "example_unmarshal d =
     (let i = takeWhile (\<lambda>x. x \<noteq> CHR ''|'') d;
          r = drop 1 (dropWhile (\<lambda>x. x \<noteq> CHR ''|'') d);
          e = takeWhile (\<lambda>x. x \<noteq> CHR ''|'') r;
          h = drop 1 (dropWhile (\<lambda>x. x \<noteq> CHR ''|'') r)
      in if d = [] then Inl (External ''unexpected end of JSON input'')
         else Inr \<lparr>ID = i, Email = e, PasswordHash = h, CreatedAt = 0, UpdatedAt = 0\<rparr>)"

definition example_generate :: "bytes \<Rightarrow> bytes \<Rightarrow> error + bytes" where
  "example_generate salt password =
     (if 72 < length password then Inl (External ''bcrypt: password length exceeds 72 bytes'')
      else Inr (''$'' @ password))"

definition example_compare :: "bytes \<Rightarrow> bytes \<Rightarrow> error option" where
  "example_compare h password =
     (if h = ''$'' @ password then None
      else Some (External ''crypto/bcrypt: hashedPassword is not the hash of the given password''))"

definition example_lib :: lib where
  "example_lib =
     \<lparr>json_Marshal = example_marshal, json_Unmarshal = example_unmarshal,
      bcrypt_GenerateFromPassword = example_generate,
      bcrypt_CompareHashAndPassword = example_compare\<rparr>"

definition example_client :: Client where
  "example_client =
     \<lparr>accountID = ''acct'', namespaceID = ''ns'', jwtSecret = ''secret'', jwtExpiry = 24 * Hour\<rparr>"

definition empty_world :: world where
  "empty_world = \<lparr>store = Map.empty, faults = []\<rparr>"

text \<open>The record and the world that registering \<open>a@x.com\<close> in the empty namespace gives.\<close>

definition registered_user :: User where
  "registered_user =
     \<lparr>ID = ''id-1'', Email = ''a@x.com'', PasswordHash = ''$Pw1!2345'',
      CreatedAt = 0, UpdatedAt = 0\<rparr>"

definition registered_world :: world where
  "registered_world =
     \<lparr>store = [slot example_client (getUserKey ''a@x.com'') \<mapsto> ''id-1|a@x.com|$Pw1!2345'',
               slot example_client (getUserIDKey ''id-1'') \<mapsto> ''a@x.com''],
      faults = []\<rparr>"

text \<open>
  The options that build \<open>example_client\<close>, the claims and the response of a login of
  \<open>a@x.com\<close> at 1.5 seconds after the epoch, and the same claims signed with HS512.
\<close>

definition example_options :: ClientOptions where
  "example_options =
     \<lparr>APIToken = ''api-token'', APIKey = [], OptEmail = [], AccountID = ''acct'',
      NamespaceID = ''ns'', JWTSecret = ''secret'', JWTExpirationHours = 0\<rparr>"

definition example_claims :: Claims where
  "example_claims =
     \<lparr>ExpiresAt = Some 86401000000000, IssuedAt = Some 1000000000, NotBefore = Some 1000000000,
      UserID = ''id-1'', ClaimsEmail = ''a@x.com''\<rparr>"

definition example_response :: LoginResponse where
  "example_response =
     \<lparr>Token = hs256_token ''secret'' example_claims, LoginExpiresAt = 86401500000000,
      LoginUser = \<lparr>InfoID = ''id-1'', InfoEmail = ''a@x.com''\<rparr>\<rparr>"

definition hs512_token :: tokenString where
  "hs512_token = Compact ''HS512'' example_claims (MAC ''HS512'' ''secret'' ''HS512'' example_claims)"

text \<open>
  Worlds with faults: the third call fails (and what is left after a registration in it),
  the next read breaks in the body, the next call fails; the world after a second
  registration of \<open>a@x.com\<close> has replaced the first, the service of internal/auth on the
  same namespace, and the world after the deletion of \<open>a@x.com\<close>.
\<close>

definition index_failure_world :: world where
  "index_failure_world =
     \<lparr>store = Map.empty,
      faults = [NoFault, NoFault, ApiError (External ''503 Service Unavailable'')]\<rparr>"

definition index_failure_result :: world where
  "index_failure_result =
     \<lparr>store = [slot example_client (getUserKey ''a@x.com'') \<mapsto> ''id-1|a@x.com|$Pw1!2345''],
      faults = []\<rparr>"

definition broken_read_world :: world where
  "broken_read_world = registered_world\<lparr>faults := [ReadError 4 (External ''unexpected EOF'')]\<rparr>"

definition failed_probe_world :: world where
  "failed_probe_world = registered_world\<lparr>faults := [ApiError (External ''503 Service Unavailable'')]\<rparr>"

definition overwritten_world :: world where
  "overwritten_world =
     \<lparr>store = (store registered_world)
                 (slot example_client (getUserKey ''a@x.com'') \<mapsto> ''id-2|a@x.com|$Other!Pw9'',
                  slot example_client (getUserIDKey ''id-2'') \<mapsto> ''a@x.com''),
      faults = []\<rparr>"

definition example_service :: Service where
  "example_service =
     \<lparr>kvClient = \<lparr>kv_accountID = ''acct'', kv_namespaceID = ''ns''\<rparr>,
      svc_jwtSecret = ''secret'', jwtExpiration = 24 * Hour\<rparr>"

definition deleted_world :: world where
  "deleted_world =
     \<lparr>store = (store registered_world)
                 (slot example_client (getUserKey ''a@x.com'') := None,
                  slot example_client (getUserIDKey ''id-1'') := None),
      faults = []\<rparr>"

section \<open>Properties\<close>

subsection \<open>The KV wrappers\<close>

lemma next_fault_store [simp]: "store (snd (next_fault w)) = store w"
  by (simp add: next_fault_def split: list.splits)

lemma next_fault_faults: "faults (snd (next_fault w)) = tl (faults w)"
  by (simp add: next_fault_def split: list.splits)

lemma next_fault_eqD:
  "next_fault w = (f, w') \<Longrightarrow> store w' = store w \<and> faults w' = tl (faults w)"
  by (auto simp: next_fault_def split: list.splits)

lemma calls_succeed_next:
  "calls_succeed (Suc n) w \<Longrightarrow> fst (next_fault w) = NoFault \<and> calls_succeed n (snd (next_fault w))"
  by (auto simp: calls_succeed_def next_fault_def split: list.splits)

lemma kvGet_world: "fst (kvGet c w key) = snd (next_fault w)"
  by (simp add: kvGet_def Values_Get_def slot_def readAll_def io_ReadAll_def
           split: prod.splits fault.splits option.splits sum.splits body.splits)

lemma kvGet_through:
  "calls_succeed (Suc n) w \<Longrightarrow>
   kvGet c w key =
     (snd (next_fault w),
      (case store w (slot c key) of None \<Rightarrow> (None, Some not_found) | Some v \<Rightarrow> (Some v, None)))"
proof -
  assume a: "calls_succeed (Suc n) w"
  obtain f w' where nf: "next_fault w = (f, w')" by (cases "next_fault w")
  from calls_succeed_next [OF a] nf have f: "f = NoFault" by simp
  from next_fault_eqD [OF nf] have "store w' = store w" by simp
  with nf f show ?thesis
    by (simp add: kvGet_def Values_Get_def slot_def readAll_def io_ReadAll_def split: option.splits)
qed

lemma kvGet_absent:
  "store w (slot c key) = None \<Longrightarrow> \<exists>e. kvGet c w key = (snd (next_fault w), (None, Some e))"
  by (cases "next_fault w")
     (auto simp: kvGet_def Values_Get_def slot_def readAll_def io_ReadAll_def dest: next_fault_eqD
           split: prod.splits fault.splits option.splits sum.splits body.splits)

lemma kvGet_no_error:
  "kvGet c w key = (w', (d, None)) \<Longrightarrow>
   w' = snd (next_fault w) \<and> (\<exists>v. store w (slot c key) = Some v \<and> d = Some v)"
  by (cases "next_fault w")
     (auto simp: kvGet_def Values_Get_def slot_def readAll_def io_ReadAll_def dest: next_fault_eqD
           split: prod.splits fault.splits option.splits sum.splits body.splits)

lemma kvSet_ok:
  "kvSet c w key v = (w', None) \<Longrightarrow>
   store w' = (store w)(slot c key \<mapsto> v) \<and> faults w' = tl (faults w)"
  by (cases "next_fault w")
     (auto simp: kvSet_def Values_Update_def slot_def next_fault_def
           split: prod.splits fault.splits list.splits)

lemma kvSet_failed:
  "kvSet c w key v = (w', Some e) \<Longrightarrow> store w' = store w \<and> faults w' = tl (faults w)"
  by (cases "next_fault w")
     (auto simp: kvSet_def Values_Update_def slot_def next_fault_def
           split: prod.splits fault.splits list.splits)

lemma kvDelete_ok:
  "kvDelete c w key = (w', None) \<Longrightarrow>
   store w' = (store w)(slot c key := None) \<and> faults w' = tl (faults w)"
  by (cases "next_fault w")
     (auto simp: kvDelete_def Values_Delete_def slot_def next_fault_def
           split: prod.splits fault.splits list.splits)

lemma keys_differ [simp]: "getUserKey email \<noteq> getUserIDKey userID"
  by (simp add: getUserKey_def getUserIDKey_def)

lemma slot_inject [simp]: "(slot c k = slot c k') = (k = k')"
  by (simp add: slot_def)

lemma saveUser_success:
  assumes "saveUser L c w user = (w', None)"
  shows "\<exists>d. json_Marshal L user = Inr d \<and>
             store w' = (store w)(slot c (getUserKey (Email user)) \<mapsto> d,
                                  slot c (getUserIDKey (ID user)) \<mapsto> Email user) \<and>
             faults w' = tl (tl (faults w))"
proof -
  from assms obtain d where d: "json_Marshal L user = Inr d"
    by (auto simp: saveUser_def toJSON_def NewAppError_def split: sum.splits)
  from assms d obtain w1 where w1: "kvSet c w (getUserKey (Email user)) d = (w1, None)"
    by (auto simp: saveUser_def toJSON_def NewAppError_def Let_def split: prod.splits option.splits)
  from assms d w1 have w2: "kvSet c w1 (getUserIDKey (ID user)) (Email user) = (w', None)"
    by (auto simp: saveUser_def toJSON_def NewAppError_def Let_def split: prod.splits option.splits)
  from kvSet_ok [OF w1] kvSet_ok [OF w2] d show ?thesis by simp
qed

lemma Register_success:
  assumes "Register L c w email password uuid salt now = (w', Inr u)"
  shows "email \<noteq> [] \<and> password \<noteq> [] \<and>
         (\<exists>h. bcrypt_GenerateFromPassword L salt password = Inr h \<and>
              u = \<lparr>ID = uuid, Email = email, PasswordHash = h, CreatedAt = now, UpdatedAt = now\<rparr>) \<and>
         (\<exists>d. json_Marshal L u = Inr d \<and>
              store w' = (store w)(slot c (getUserKey email) \<mapsto> d,
                                   slot c (getUserIDKey uuid) \<mapsto> email)) \<and>
         faults w' = tl (tl (tl (faults w)))"
proof -
  from assms have ne: "email \<noteq> []" "password \<noteq> []"
    by (auto simp: Register_def split: if_splits)
  obtain w0 d0 e0 where g: "kvGet c w (getUserKey email) = (w0, (d0, e0))"
    by (metis prod.exhaust)
  from assms ne g have d0: "d0 = None"
    by (cases d0) (auto simp: Register_def Let_def)
  from assms ne g d0 obtain h where h: "bcrypt_GenerateFromPassword L salt password = Inr h"
    by (cases "bcrypt_GenerateFromPassword L salt password") (auto simp: Register_def Let_def)
  let ?u = "\<lparr>ID = uuid, Email = email, PasswordHash = h, CreatedAt = now, UpdatedAt = now\<rparr>"
  from assms ne g d0 h have s: "saveUser L c w0 ?u = (w', None)" and u: "u = ?u"
    by (auto simp: Register_def Let_def split: prod.splits option.splits)
  from kvGet_world [of c w "getUserKey email"] g have w0: "w0 = snd (next_fault w)" by simp
  from saveUser_success [OF s] w0 u h ne show ?thesis
    by (auto simp: next_fault_faults)
qed

subsection \<open>Reading users, logging in, parsing tokens\<close>

lemma getUserByEmail_through:
  assumes "calls_succeed (Suc n) w" and "store w (slot c (getUserKey email)) = Some d"
  shows "getUserByEmail L c w email = (snd (next_fault w), json_Unmarshal L d)"
  using assms
  by (simp add: getUserByEmail_def kvGet_through [OF assms(1)] userFromJSON_def bytes_of_def
           split: sum.splits)

lemma GetUserByID_through:
  assumes "calls_succeed (Suc (Suc n)) w"
    and "store w (slot c (getUserIDKey userID)) = Some email"
    and "store w (slot c (getUserKey email)) = Some d"
  shows "snd (GetUserByID L c w userID) = json_Unmarshal L d"
proof -
  let ?w1 = "snd (next_fault w)"
  from calls_succeed_next [OF assms(1)] have c1: "calls_succeed (Suc n) ?w1" by simp
  have s1: "store ?w1 (slot c (getUserKey email)) = Some d" using assms(3) by simp
  show ?thesis
    by (simp add: GetUserByID_def kvGet_through [OF assms(1)] assms(2) bytes_of_def
                  getUserByEmail_through [OF c1 s1])
qed

lemma Login_authenticated:
  assumes "email \<noteq> []" and "password \<noteq> []"
    and "getUserByEmail L c w email = (w0, Inr user)"
    and "bcrypt_CompareHashAndPassword L (PasswordHash user) password = None"
  shows "Login L c w email password t1 t2 t3 =
           (w0, Inr \<lparr>Token = hs256_token (jwtSecret c) (login_claims c user t1 t2 t3),
                     LoginExpiresAt = Add t1 (jwtExpiry c),
                     LoginUser = \<lparr>InfoID = ID user, InfoEmail = Email user\<rparr>\<rparr>)"
  using assms
  by (simp add: Login_def Let_def SignedString_def SigningMethodHS256_def Alg_def
                hs256_token_def login_claims_def)

lemma parseToken_hs256:
  assumes "Validate claims tv = []"
  shows "parseToken c (hs256_token (jwtSecret c) claims) tv = Inr claims"
  using assms
  by (simp add: parseToken_def ParseWithClaims_def hs256_token_def GetSigningMethod_def
                keyFunc_def Verify_def Let_def)

lemma Validate_login_claims:
  assumes "Truncate t3 Second \<le> tv" and "tv < Truncate (Add t1 (jwtExpiry c)) Second"
  shows "Validate (login_claims c user t1 t2 t3) tv = []"
  using assms by (simp add: Validate_def login_claims_def NewNumericDate_def)

lemma getUserByEmail_found:
  assumes "getUserByEmail L c w email = (w0, Inr user)"
  shows "w0 = snd (next_fault w) \<and>
         (\<exists>d. store w (slot c (getUserKey email)) = Some d \<and> json_Unmarshal L d = Inr user)"
proof -
  obtain w' dd e where g: "kvGet c w (getUserKey email) = (w', (dd, e))" by (metis prod.exhaust)
  from assms g have e: "e = None"
    by (cases e) (auto simp: getUserByEmail_def NewAppError_def)
  from kvGet_no_error [OF g [unfolded e]] obtain v where
    v: "w' = snd (next_fault w)" "store w (slot c (getUserKey email)) = Some v" "dd = Some v"
    by blast
  from assms g e v show ?thesis
    by (auto simp: getUserByEmail_def userFromJSON_def bytes_of_def split: sum.splits)
qed

lemma getUserByEmail_missing:
  assumes "store w (slot c (getUserKey email)) = None"
  shows "getUserByEmail L c w email =
           (snd (next_fault w),
            Inl (AppError ''Client.getUserByEmail'' ErrUserNotFound ''user not found'' 404))"
  using kvGet_absent [OF assms] by (auto simp: getUserByEmail_def NewAppError_def)

lemma GetUserByID_missing:
  assumes "store w (slot c (getUserIDKey userID)) = None"
  shows "GetUserByID L c w userID =
           (snd (next_fault w),
            Inl (AppError ''Client.GetUserByID'' ErrUserNotFound ''user not found'' 404))"
  using kvGet_absent [OF assms] by (auto simp: GetUserByID_def NewAppError_def)

lemma DeleteUser_success:
  assumes "DeleteUser L c w email = (w2, None)"
  shows "\<exists>d user. store w (slot c (getUserKey email)) = Some d \<and> json_Unmarshal L d = Inr user \<and>
           store w2 = (store w)(slot c (getUserKey email) := None,
                                slot c (getUserIDKey (ID user)) := None)"
proof -
  obtain w0 r where g: "getUserByEmail L c w email = (w0, r)" by (metis prod.exhaust)
  from assms g obtain user where r: "r = Inr user"
    by (cases r) (auto simp: DeleteUser_def)
  from getUserByEmail_found [OF g [unfolded r]] obtain d where
    w0: "w0 = snd (next_fault w)" and d: "store w (slot c (getUserKey email)) = Some d"
    and u: "json_Unmarshal L d = Inr user" by blast
  obtain w1 r1 where k1: "kvDelete c w0 (getUserKey email) = (w1, r1)" by (metis prod.exhaust)
  from assms g r k1 have r1: "r1 = None"
    by (cases r1) (auto simp: DeleteUser_def Let_def)
  obtain w2' r2 where k2: "kvDelete c w1 (getUserIDKey (ID user)) = (w2', r2)"
    by (metis prod.exhaust)
  from assms g r k1 r1 k2 have r2: "r2 = None" and w2: "w2' = w2"
    by (cases r2; auto simp: DeleteUser_def Let_def)+
  from kvDelete_ok [OF k1 [unfolded r1]] kvDelete_ok [OF k2 [unfolded r2]] w0 w2
  have "store w2 = (store w)(slot c (getUserKey email) := None,
                             slot c (getUserIDKey (ID user)) := None)"
    by simp
  with d u show ?thesis by blast
qed

lemma Login_success:
  assumes "Login L c w email password t1 t2 t3 = (w', Inr resp)"
  shows "\<exists>user. getUserByEmail L c w email = (w', Inr user) \<and>
           resp = \<lparr>Token = hs256_token (jwtSecret c) (login_claims c user t1 t2 t3),
                    LoginExpiresAt = Add t1 (jwtExpiry c),
                    LoginUser = \<lparr>InfoID = ID user, InfoEmail = Email user\<rparr>\<rparr>"
proof -
  from assms have ne: "email \<noteq> []" "password \<noteq> []"
    by (auto simp: Login_def split: if_splits)
  obtain w0 r where g: "getUserByEmail L c w email = (w0, r)" by (metis prod.exhaust)
  from assms ne g obtain user where r: "r = Inr user"
    by (cases r) (auto simp: Login_def)
  from assms ne g r have cmp: "bcrypt_CompareHashAndPassword L (PasswordHash user) password = None"
    by (cases "bcrypt_CompareHashAndPassword L (PasswordHash user) password")
       (auto simp: Login_def)
  from Login_authenticated [OF ne g [unfolded r] cmp, of t1 t2 t3] assms g r
  show ?thesis by auto
qed

lemma Truncate_bounds: "Truncate t Second \<le> t \<and> t < Truncate t Second + Second"
  by (simp add: Truncate_def Second_def)

lemma Register_probe_empty:
  assumes ne: "email \<noteq> []" "password \<noteq> []"
    and probe: "kvGet c w (getUserKey email) = (w0, (None, e0))"
  shows "Register L c w email password uuid salt now =
           (case bcrypt_GenerateFromPassword L salt password of
              Inl err \<Rightarrow>
                (w0, Inl (AppError ''Client.Register'' err ''failed to hash password'' 500))
            | Inr h \<Rightarrow>
                (case saveUser L c w0 \<lparr>ID = uuid, Email = email, PasswordHash = h,
                                        CreatedAt = now, UpdatedAt = now\<rparr> of
                   (w1, Some err) \<Rightarrow> (w1, Inl err)
                 | (w1, None) \<Rightarrow>
                     (w1, Inr \<lparr>ID = uuid, Email = email, PasswordHash = h,
                               CreatedAt = now, UpdatedAt = now\<rparr>)))"
  using ne probe by (simp add: Register_def Let_def NewAppError_def split: sum.splits)

lemma kvGet_store: "kvGet c w key = (w0, r) \<Longrightarrow> store w0 = store w"
  using kvGet_world [of c w key] by simp

lemma GetSigningMethod_HMAC:
  "GetSigningMethod alg = Some (SigningMethodHMAC h) \<Longrightarrow> alg \<in> {''HS256'', ''HS384'', ''HS512''}"
  by (simp add: GetSigningMethod_def split: if_splits)

subsection \<open>The concrete instance, evaluated\<close>

lemma example_register:
  "Register example_lib example_client empty_world ''a@x.com'' ''Pw1!2345'' ''id-1'' ''salt'' 0
     = (registered_world, Inr registered_user)"
  by (simp add: Register_def kvGet_def Values_Get_def slot_def next_fault_def empty_world_def
        example_lib_def example_generate_def saveUser_def toJSON_def example_marshal_def
        kvSet_def Values_Update_def slot_def registered_world_def registered_user_def Let_def)

lemma example_login:
  "Login example_lib example_client registered_world ''a@x.com'' ''Pw1!2345''
     1500000000 1500000000 1500000000 = (registered_world, Inr example_response)"
  by (simp add: Login_def getUserByEmail_def kvGet_def Values_Get_def slot_def next_fault_def
        registered_world_def readAll_def io_ReadAll_def userFromJSON_def bytes_of_def example_lib_def
        example_unmarshal_def example_compare_def SignedString_def SigningMethodHS256_def
        Alg_def NewNumericDate_def Truncate_def Second_def Add_def example_client_def Hour_def
        example_response_def hs256_token_def example_claims_def Let_def)

lemma example_delete:
  "DeleteUser example_lib example_client registered_world ''a@x.com'' = (deleted_world, None)"
  by (simp add: DeleteUser_def getUserByEmail_def kvGet_def Values_Get_def slot_def next_fault_def
        registered_world_def readAll_def io_ReadAll_def userFromJSON_def bytes_of_def example_lib_def
        example_unmarshal_def kvDelete_def Values_Delete_def slot_def deleted_world_def Let_def)

lemma example_parse:
  "parseToken example_client (Token example_response) 2000000000 = Inr example_claims"
  by (simp add: example_response_def hs256_token_def parseToken_def ParseWithClaims_def
        GetSigningMethod_def keyFunc_def Verify_def Validate_def example_claims_def
        example_client_def Let_def)

text \<open>
  A token of any method of the HMAC family, signed with the secret of the client under that
  method, is accepted when its dates are in order.
\<close>

lemma parseToken_hmac_family:
  assumes "alg \<in> {''HS256'', ''HS384'', ''HS512''}" and "Validate claims tv = []"
  shows "parseToken c (Compact alg claims (MAC alg (jwtSecret c) alg claims)) tv = Inr claims"
  using assms
  by (auto simp: parseToken_def ParseWithClaims_def GetSigningMethod_def keyFunc_def
        Verify_def Let_def)

subsection \<open>The existence probe of the two Register functions\<close>

text \<open>
  \<open>Register\<close> of client.go, when its probe returns no data with an error \<open>e\<close>: it goes on
  to hash the password and save the user, and \<open>e\<close> is not part of its result. When hashing
  and serialising succeed and the two writes go through, it returns the new user and both
  entries are written, over any record that was there.
\<close>

lemma probe_error_discarded:
  assumes ne: "email \<noteq> []" "password \<noteq> []"
    and probe: "kvGet c w (getUserKey email) = (w0, (None, Some e))"
  shows "Register L c w email password uuid salt now =
           (case bcrypt_GenerateFromPassword L salt password of
              Inl err \<Rightarrow>
                (w0, Inl (AppError ''Client.Register'' err ''failed to hash password'' 500))
            | Inr h \<Rightarrow>
                (case saveUser L c w0 \<lparr>ID = uuid, Email = email, PasswordHash = h,
                                        CreatedAt = now, UpdatedAt = now\<rparr> of
                   (w1, Some err) \<Rightarrow> (w1, Inl err)
                 | (w1, None) \<Rightarrow>
                     (w1, Inr \<lparr>ID = uuid, Email = email, PasswordHash = h,
                               CreatedAt = now, UpdatedAt = now\<rparr>)))
       \<and> (bcrypt_GenerateFromPassword L salt password = Inr h \<and>
          json_Marshal L \<lparr>ID = uuid, Email = email, PasswordHash = h,
                          CreatedAt = now, UpdatedAt = now\<rparr> = Inr d \<and>
          calls_succeed 2 w0 \<longrightarrow>
            snd (Register L c w email password uuid salt now) =
              Inr \<lparr>ID = uuid, Email = email, PasswordHash = h,
                    CreatedAt = now, UpdatedAt = now\<rparr> \<and>
            store (fst (Register L c w email password uuid salt now)) =
              (store w)(slot c (getUserKey email) \<mapsto> d,
                        slot c (getUserIDKey uuid) \<mapsto> email))"
proof -
  let ?u = "\<lparr>ID = uuid, Email = email, PasswordHash = h, CreatedAt = now, UpdatedAt = now\<rparr>"
  note eq = Register_probe_empty [OF ne probe, of L uuid salt now]
  have b: "bcrypt_GenerateFromPassword L salt password = Inr h \<and> json_Marshal L ?u = Inr d \<and>
          calls_succeed 2 w0 \<longrightarrow>
            snd (Register L c w email password uuid salt now) = Inr ?u \<and>
            store (fst (Register L c w email password uuid salt now)) =
              (store w)(slot c (getUserKey email) \<mapsto> d,
                        slot c (getUserIDKey uuid) \<mapsto> email)"
  proof (intro impI, elim conjE)
    assume h: "bcrypt_GenerateFromPassword L salt password = Inr h"
      and d: "json_Marshal L ?u = Inr d" and t: "calls_succeed 2 w0"
    from t have t2: "calls_succeed (Suc (Suc 0)) w0" by (simp add: numeral_2_eq_2)
    let ?w1 = "snd (next_fault w0)"
    from calls_succeed_next [OF t2] have f0: "fst (next_fault w0) = NoFault"
      and t1: "calls_succeed (Suc 0) ?w1" by simp_all
    from calls_succeed_next [OF t1] have f1: "fst (next_fault ?w1) = NoFault" by simp
    have s1: "kvSet c w0 (getUserKey email) d =
                (?w1\<lparr>store := (store ?w1)(slot c (getUserKey email) \<mapsto> d)\<rparr>, None)"
      using f0 by (cases "next_fault w0") (simp add: kvSet_def Values_Update_def slot_def)
    let ?w1' = "?w1\<lparr>store := (store ?w1)(slot c (getUserKey email) \<mapsto> d)\<rparr>"
    have nf: "next_fault ?w1' =
                (fst (next_fault ?w1),
                 (snd (next_fault ?w1))\<lparr>store := (store ?w1)(slot c (getUserKey email) \<mapsto> d)\<rparr>)"
      by (simp add: next_fault_def split: list.splits)
    have s2: "\<exists>w2. kvSet c ?w1' (getUserIDKey uuid) email = (w2, None) \<and>
                store w2 = (store w0)(slot c (getUserKey email) \<mapsto> d,
                                      slot c (getUserIDKey uuid) \<mapsto> email)"
      using f1 nf by (simp add: kvSet_def Values_Update_def slot_def)
    then obtain w2 where w2: "kvSet c ?w1' (getUserIDKey uuid) email = (w2, None)"
      and st: "store w2 = (store w0)(slot c (getUserKey email) \<mapsto> d,
                                      slot c (getUserIDKey uuid) \<mapsto> email)" by blast
    have sv: "saveUser L c w0 ?u = (w2, None)"
      using d s1 w2 by (simp add: saveUser_def toJSON_def Let_def)
    from eq h sv st kvGet_store [OF probe]
    show "snd (Register L c w email password uuid salt now) = Inr ?u \<and>
            store (fst (Register L c w email password uuid salt now)) =
              (store w)(slot c (getUserKey email) \<mapsto> d,
                        slot c (getUserIDKey uuid) \<mapsto> email)"
      by simp
  qed
  from eq b show ?thesis by blast
qed

lemma probe_error_discarded_example:
  "''a@x.com'' \<noteq> [] \<and> ''Other!Pw9'' \<noteq> [] \<and>
   store failed_probe_world (slot example_client (getUserKey ''a@x.com''))
     = Some ''id-1|a@x.com|$Pw1!2345'' \<and>
   kvGet example_client failed_probe_world (getUserKey ''a@x.com'') =
     (registered_world, (None, Some (External ''503 Service Unavailable''))) \<and>
   bcrypt_GenerateFromPassword example_lib ''pepper'' ''Other!Pw9'' = Inr ''$Other!Pw9'' \<and>
   json_Marshal example_lib \<lparr>ID = ''id-2'', Email = ''a@x.com'', PasswordHash = ''$Other!Pw9'',
                              CreatedAt = 7, UpdatedAt = 7\<rparr> = Inr ''id-2|a@x.com|$Other!Pw9'' \<and>
   calls_succeed 2 registered_world \<and>
   snd (Register example_lib example_client failed_probe_world ''a@x.com'' ''Other!Pw9'' ''id-2''
          ''pepper'' 7) =
     Inr \<lparr>ID = ''id-2'', Email = ''a@x.com'', PasswordHash = ''$Other!Pw9'',
           CreatedAt = 7, UpdatedAt = 7\<rparr> \<and>
   store (fst (Register example_lib example_client failed_probe_world ''a@x.com'' ''Other!Pw9''
                 ''id-2'' ''pepper'' 7)) =
     (store failed_probe_world)
       (slot example_client (getUserKey ''a@x.com'') \<mapsto> ''id-2|a@x.com|$Other!Pw9'',
        slot example_client (getUserIDKey ''id-2'') \<mapsto> ''a@x.com'')"
proof -
  have h1: "''a@x.com'' \<noteq> []" and h2: "''Other!Pw9'' \<noteq> []" by simp_all
  have s: "store failed_probe_world (slot example_client (getUserKey ''a@x.com''))
             = Some ''id-1|a@x.com|$Pw1!2345''"
    by (simp add: failed_probe_world_def registered_world_def)
  have h3: "kvGet example_client failed_probe_world (getUserKey ''a@x.com'') =
              (registered_world, (None, Some (External ''503 Service Unavailable'')))"
    by (simp add: kvGet_def Values_Get_def slot_def next_fault_def failed_probe_world_def
          registered_world_def)
  have b1: "bcrypt_GenerateFromPassword example_lib ''pepper'' ''Other!Pw9'' = Inr ''$Other!Pw9''"
    by (simp add: example_lib_def example_generate_def)
  have b2: "json_Marshal example_lib \<lparr>ID = ''id-2'', Email = ''a@x.com'',
              PasswordHash = ''$Other!Pw9'', CreatedAt = 7, UpdatedAt = 7\<rparr>
              = Inr ''id-2|a@x.com|$Other!Pw9''"
    by (simp add: example_lib_def example_marshal_def)
  have b3: "calls_succeed 2 registered_world"
    by (simp add: calls_succeed_def registered_world_def)
  note th = probe_error_discarded [OF h1 h2 h3, of example_lib "''id-2''" "''pepper''" 7
              "''$Other!Pw9''" "''id-2|a@x.com|$Other!Pw9''", THEN conjunct2, rule_format]
  from th [OF conjI [OF b1 conjI [OF b2 b3]]] h1 h2 s h3 b1 b2 b3
  show ?thesis by blast
qed

text \<open>
  \<open>kvGet\<close> hands the result of \<open>readAll\<close> on: when the get finds the value and the read of
  the body breaks, the data is the bytes read so far, not \<open>nil\<close>, and \<open>Register\<close> answers
  that the user exists.
\<close>

lemma Register_body_read_failure:
  assumes ne: "email \<noteq> []" "password \<noteq> []"
    and rec: "store w (slot c (getUserKey email)) = Some v"
    and flt: "faults w = ReadError n e # rest"
  shows "kvGet c w (getUserKey email) = (w\<lparr>faults := rest\<rparr>, (Some (take n v), Some e))"
    and "Register L c w email password uuid salt now =
           (w\<lparr>faults := rest\<rparr>,
            Inl (AppError ''Client.Register'' ErrUserAlreadyExists ''user already exists'' 409))"
proof -
  show g: "kvGet c w (getUserKey email) = (w\<lparr>faults := rest\<rparr>, (Some (take n v), Some e))"
    using rec flt
    by (simp add: kvGet_def Values_Get_def next_fault_def readAll_def io_ReadAll_def slot_def)
  show "Register L c w email password uuid salt now =
           (w\<lparr>faults := rest\<rparr>,
            Inl (AppError ''Client.Register'' ErrUserAlreadyExists ''user already exists'' 409))"
    using ne by (simp add: Register_def g NewAppError_def)
qed

text \<open>
  The siblings return \<open>nil\<close> data with every error: \<open>KVGet\<close> of kv.go and \<open>Get\<close> of
  internal/kv. So \<open>Service.Register\<close> goes on to hash and save for every error of its probe.
\<close>

lemma KVGet_error_nil: "KVGet c w key = (w', (d, Some e)) \<Longrightarrow> d = None"
  by (auto simp: KVGet_def split: prod.splits sum.splits option.splits)

lemma kv_Get_error_nil: "kv_Get k w key = (w', (d, Some e)) \<Longrightarrow> d = None"
  by (auto simp: kv_Get_def split: prod.splits sum.splits option.splits)

lemma Service_Register_probe_error:
  assumes ne: "ReqEmail req \<noteq> []" "ReqPassword req \<noteq> []"
    and probe: "kv_Get (kvClient s) w (getUserKey (ReqEmail req)) = (w0, (d, Some e))"
  shows "Service_Register L s w req uuid salt now =
           (case bcrypt_GenerateFromPassword L salt (ReqPassword req) of
              Inl err \<Rightarrow>
                (w0, Inl (apperrors_AppError ''auth.Register'' err ''failed to hash password'' 500))
            | Inr h \<Rightarrow>
                (case json_Marshal L \<lparr>ID = uuid, Email = ReqEmail req, PasswordHash = h,
                                       CreatedAt = now, UpdatedAt = now\<rparr> of
                   Inl err \<Rightarrow>
                     (w0, Inl (apperrors_AppError ''auth.Register'' err
                                 ''failed to serialize user'' 500))
                 | Inr userData \<Rightarrow>
                     (case kv_Set (kvClient s) w0 (getUserKey (ReqEmail req)) userData None of
                        (w1, Some err) \<Rightarrow>
                          (w1, Inl (apperrors_AppError ''auth.Register'' err
                                      ''failed to save user'' 500))
                      | (w1, None) \<Rightarrow>
                          (case kv_Set (kvClient s) w1 (getUserIDKey uuid) (ReqEmail req) None of
                             (w2, Some err) \<Rightarrow>
                               (w2, Inl (apperrors_AppError ''auth.Register'' err
                                           ''failed to save user ID mapping'' 500))
                           | (w2, None) \<Rightarrow>
                               (w2, Inr \<lparr>ID = uuid, Email = ReqEmail req, PasswordHash = h,
                                         CreatedAt = now, UpdatedAt = now\<rparr>)))))"
proof -
  from kv_Get_error_nil [OF probe] have "d = None" .
  with ne probe show ?thesis
    by (simp add: Service_Register_def ToJSON_def apperrors_NewAppError_def Let_def
             split: sum.splits prod.splits option.splits)
qed

section \<open>The claims\<close>

text \<open>
  C1. For every non-empty email and non-empty password: if \<open>Register\<close> succeeds and returns a
  user record, then \<open>Login\<close> with the same credentials against the resulting store succeeds,
  and \<open>ValidateToken\<close> on the token it returns resolves to a user with the id of the record
  \<open>Register\<close> returned. The collaborators behave: the three reads that \<open>Login\<close> and
  \<open>ValidateToken\<close> make go through, JSON gives the id and the hash of the record back,
  bcrypt accepts the password it hashed, and the token is validated at a time \<open>tv\<close> from its
  not-before date on and before its expiry.
\<close>

theorem register_login_validate:
  assumes ne: "email \<noteq> []" "password \<noteq> []"
    and reg: "Register L c w email password uuid salt now = (w1, Inr u)"
    and json: "json_preserves L u"
    and bc: "bcrypt_accepts_own L salt password"
    and thru: "calls_succeed 3 w1"
    and nbf: "Truncate t3 Second \<le> tv"
    and exp: "tv < Truncate (Add t1 (jwtExpiry c)) Second"
  shows "\<exists>w2 resp. Login L c w1 email password t1 t2 t3 = (w2, Inr resp) \<and>
           (\<exists>w3 u'. ValidateToken L c w2 (Token resp) tv = (w3, Inr u') \<and> ID u' = ID u)"
proof -
  from Register_success [OF reg] obtain h d where
        h: "bcrypt_GenerateFromPassword L salt password = Inr h"
    and u: "u = \<lparr>ID = uuid, Email = email, PasswordHash = h, CreatedAt = now, UpdatedAt = now\<rparr>"
    and d: "json_Marshal L u = Inr d"
    and st: "store w1 = (store w)(slot c (getUserKey email) \<mapsto> d,
                                  slot c (getUserIDKey uuid) \<mapsto> email)"
    by blast
  from json d obtain u' where u': "json_Unmarshal L d = Inr u'"
      and id: "ID u' = ID u" and ph: "PasswordHash u' = PasswordHash u"
    by (auto simp: json_preserves_def split: sum.splits)
  from bc h u ph have cmp: "bcrypt_CompareHashAndPassword L (PasswordHash u') password = None"
    by (simp add: bcrypt_accepts_own_def)
  let ?w2 = "snd (next_fault w1)"
  have e1: "store w1 (slot c (getUserKey email)) = Some d" by (simp add: st)
  have i1: "store w1 (slot c (getUserIDKey uuid)) = Some email" by (simp add: st)
  have c3: "calls_succeed (Suc 2) w1" using thru by (simp add: numeral_3_eq_3 numeral_2_eq_2)
  have g: "getUserByEmail L c w1 email = (?w2, Inr u')"
    using getUserByEmail_through [OF c3 e1] u' by simp
  let ?cl = "login_claims c u' t1 t2 t3"
  let ?resp = "\<lparr>Token = hs256_token (jwtSecret c) ?cl,
                 LoginExpiresAt = Add t1 (jwtExpiry c),
                 LoginUser = \<lparr>InfoID = ID u', InfoEmail = Email u'\<rparr>\<rparr>"
  have lg: "Login L c w1 email password t1 t2 t3 = (?w2, Inr ?resp)"
    by (rule Login_authenticated [OF ne g cmp])
  have c2: "calls_succeed (Suc (Suc 0)) ?w2"
    using calls_succeed_next [OF c3] by (simp add: numeral_2_eq_2)
  have pt: "parseToken c (hs256_token (jwtSecret c) ?cl) tv = Inr ?cl"
    by (rule parseToken_hs256 [OF Validate_login_claims [OF nbf exp]])
  have uid: "UserID ?cl = uuid" using id u by (simp add: login_claims_def)
  have "snd (GetUserByID L c ?w2 uuid) = Inr u'"
    using GetUserByID_through [OF c2, of c uuid email d L] e1 i1 u' by simp
  then have "ValidateToken L c ?w2 (Token ?resp) tv = (fst (GetUserByID L c ?w2 uuid), Inr u')"
    by (simp add: ValidateToken_def pt uid prod_eq_iff)
  with lg id show ?thesis by auto
qed

theorem register_login_validate_witness:
  "''a@x.com'' \<noteq> [] \<and> ''Pw1!2345'' \<noteq> [] \<and>
   Register example_lib example_client empty_world ''a@x.com'' ''Pw1!2345'' ''id-1'' ''salt'' 0
     = (registered_world, Inr registered_user) \<and>
   json_preserves example_lib registered_user \<and>
   bcrypt_accepts_own example_lib ''salt'' ''Pw1!2345'' \<and>
   calls_succeed 3 registered_world \<and>
   Truncate 1500000000 Second \<le> 2000000000 \<and>
   2000000000 < Truncate (Add 1500000000 (jwtExpiry example_client)) Second \<and>
   (\<exists>w2 resp. Login example_lib example_client registered_world ''a@x.com'' ''Pw1!2345''
                 1500000000 1500000000 1500000000 = (w2, Inr resp) \<and>
      (\<exists>w3 u'. ValidateToken example_lib example_client w2 (Token resp) 2000000000
                  = (w3, Inr u') \<and>
                ID u' = ID registered_user))"
proof -
  have h1: "''a@x.com'' \<noteq> []" and h2: "''Pw1!2345'' \<noteq> []" by simp_all
  note h3 = example_register
  have h4: "json_preserves example_lib registered_user"
    by (simp add: json_preserves_def example_lib_def example_marshal_def example_unmarshal_def
                  registered_user_def)
  have h5: "bcrypt_accepts_own example_lib ''salt'' ''Pw1!2345''"
    by (simp add: bcrypt_accepts_own_def example_lib_def example_generate_def example_compare_def)
  have h6: "calls_succeed 3 registered_world"
    by (simp add: calls_succeed_def registered_world_def)
  have h7: "Truncate 1500000000 Second \<le> 2000000000"
    by (simp add: Truncate_def Second_def)
  have h8: "2000000000 < Truncate (Add 1500000000 (jwtExpiry example_client)) Second"
    by (simp add: Truncate_def Second_def Add_def example_client_def Hour_def)
  from register_login_validate [OF h1 h2 h3 h4 h5 h6 h7 h8] h1 h2 h3 h4 h5 h6 h7 h8
  show ?thesis by blast
qed

text \<open>
  C2, as stated, fails. \<open>Login\<close> signs with HS256, and the key function of \<open>parseToken\<close>
  accepts every method of the HMAC family: a token whose header declares HS512, signed
  with the shared secret under HS512, is parsed and validated.
\<close>

theorem other_hmac_algorithm_accepted:
  "header_alg hs512_token = Some ''HS512'' \<and>
   header_alg (hs256_token ''secret'' example_claims) = Some ''HS256'' \<and>
   parseToken example_client hs512_token 2000000000 = Inr example_claims \<and>
   ValidateToken example_lib example_client registered_world hs512_token 2000000000 =
     (registered_world, Inr \<lparr>ID = ''id-1'', Email = ''a@x.com'', PasswordHash = ''$Pw1!2345'',
                              CreatedAt = 0, UpdatedAt = 0\<rparr>)"
  by (simp add: header_alg_def hs512_token_def hs256_token_def parseToken_def ParseWithClaims_def
        GetSigningMethod_def keyFunc_def Verify_def Validate_def example_claims_def
        example_client_def ValidateToken_def GetUserByID_def getUserByEmail_def kvGet_def
        Values_Get_def slot_def next_fault_def registered_world_def readAll_def io_ReadAll_def bytes_of_def
        userFromJSON_def example_lib_def example_unmarshal_def slot_def getUserKey_def
        getUserIDKey_def Let_def)

text \<open>
  C2, amended. For every token string whose header declares a signing algorithm outside
  the HMAC family (HS256, HS384, HS512), whatever its claims and its signature,
  \<open>parseToken\<close> rejects the token with the \<open>AppError\<close> of message "invalid token" and
  code 401 that wraps the error of the jwt library, and so does \<open>ValidateToken\<close>, without
  a call to the store.
\<close>

theorem non_hmac_algorithm_rejected:
  assumes "alg \<notin> {''HS256'', ''HS384'', ''HS512''}"
  shows "parseToken c (Compact alg claims sg) now =
           Inl (AppError ''Client.parseToken'' (JWTError [TokenUnverifiable]) ''invalid token'' 401)
       \<and> ValidateToken L c w (Compact alg claims sg) now =
           (w, Inl (AppError ''Client.parseToken'' (JWTError [TokenUnverifiable])
                      ''invalid token'' 401))"
proof -
  have p: "ParseWithClaims (Compact alg claims sg) (keyFunc c) now = Inl (JWTError [TokenUnverifiable])"
  proof (cases "GetSigningMethod alg")
    case None
    then show ?thesis by (simp add: ParseWithClaims_def)
  next
    case (Some m)
    with assms GetSigningMethod_HMAC have "\<And>h. m \<noteq> SigningMethodHMAC h" by blast
    then have "\<And>t. Method t = m \<Longrightarrow> \<exists>e. keyFunc c t = Inl e"
      by (cases m) (auto simp: keyFunc_def)
    then obtain e where
      "keyFunc c \<lparr>Method = m, HeaderAlg = alg, TokenClaims = claims, Signature = sg, Valid = False\<rparr>
         = Inl e"
      by fastforce
    with Some show ?thesis by (simp add: ParseWithClaims_def Let_def)
  qed
  then show ?thesis by (simp add: parseToken_def ValidateToken_def NewAppError_def)
qed

theorem non_hmac_algorithm_rejected_witness:
  "''RS256'' \<notin> {''HS256'', ''HS384'', ''HS512''} \<and>
   parseToken example_client
       (Compact ''RS256'' example_claims (MAC ''HS256'' ''secret'' ''RS256'' example_claims)) 2000000000 =
     Inl (AppError ''Client.parseToken'' (JWTError [TokenUnverifiable]) ''invalid token'' 401)"
  using non_hmac_algorithm_rejected [of "''RS256''" example_client example_claims
          "MAC ''HS256'' ''secret'' ''RS256'' example_claims" 2000000000]
  by simp

text \<open>
  C3. Take a user whose record is stored under its email, and a token that
  \<open>parseToken\<close> accepts at time \<open>tv\<close> (valid and unexpired) and whose embedded user id is the
  id of that record. If \<open>DeleteUser\<close> for the email completes successfully, then in the world
  it leaves \<open>ValidateToken\<close> on the token returns the error wrapping \<open>ErrUserNotFound\<close>: it
  looks the id up in the store again. \<open>GetUserByID\<close> with the id returns the same error.
\<close>

theorem deleted_user_token_rejected:
  assumes del: "DeleteUser L c w email = (w2, None)"
    and rec: "store w (slot c (getUserKey email)) = Some d" "json_Unmarshal L d = Inr user"
    and tok: "parseToken c ts tv = Inr claims"
    and sub: "UserID claims = ID user"
  shows "ValidateToken L c w2 ts tv =
           (snd (next_fault w2),
            Inl (AppError ''Client.GetUserByID'' ErrUserNotFound ''user not found'' 404))
       \<and> GetUserByID L c w2 (ID user) =
           (snd (next_fault w2),
            Inl (AppError ''Client.GetUserByID'' ErrUserNotFound ''user not found'' 404))
       \<and> IsUserNotFound (AppError ''Client.GetUserByID'' ErrUserNotFound ''user not found'' 404)"
proof -
  from DeleteUser_success [OF del] rec
  have "store w2 (slot c (getUserIDKey (ID user))) = None" by auto
  from GetUserByID_missing [OF this, of L] tok sub show ?thesis
    by (simp add: ValidateToken_def IsUserNotFound_def)
qed

theorem deleted_user_token_rejected_witness:
  "DeleteUser example_lib example_client registered_world ''a@x.com'' = (deleted_world, None) \<and>
   store registered_world (slot example_client (getUserKey ''a@x.com''))
     = Some ''id-1|a@x.com|$Pw1!2345'' \<and>
   json_Unmarshal example_lib ''id-1|a@x.com|$Pw1!2345'' = Inr registered_user \<and>
   Login example_lib example_client registered_world ''a@x.com'' ''Pw1!2345''
     1500000000 1500000000 1500000000 = (registered_world, Inr example_response) \<and>
   parseToken example_client (Token example_response) 2000000000 = Inr example_claims \<and>
   UserID example_claims = ID registered_user \<and>
   ValidateToken example_lib example_client deleted_world (Token example_response) 2000000000 =
     (deleted_world,
      Inl (AppError ''Client.GetUserByID'' ErrUserNotFound ''user not found'' 404)) \<and>
   GetUserByID example_lib example_client deleted_world ''id-1'' =
     (deleted_world,
      Inl (AppError ''Client.GetUserByID'' ErrUserNotFound ''user not found'' 404))"
proof -
  note h1 = example_delete
  have h2: "store registered_world (slot example_client (getUserKey ''a@x.com''))
              = Some ''id-1|a@x.com|$Pw1!2345''"
    by (simp add: registered_world_def)
  have h3: "json_Unmarshal example_lib ''id-1|a@x.com|$Pw1!2345'' = Inr registered_user"
    by (simp add: example_lib_def example_unmarshal_def registered_user_def)
  note h4 = example_parse
  have h5: "UserID example_claims = ID registered_user"
    by (simp add: example_claims_def registered_user_def)
  have nf: "snd (next_fault deleted_world) = deleted_world"
    by (simp add: next_fault_def deleted_world_def)
  have id: "ID registered_user = ''id-1''" by (simp add: registered_user_def)
  from deleted_user_token_rejected [OF h1 h2 h3 h4 h5] h1 h2 h3 h4 h5 example_login nf id
  show ?thesis by simp
qed

text \<open>
  C4, as stated, fails. \<open>Login\<close> turns every error of the fetch into the error wrapping
  \<open>ErrUserNotFound\<close>: with the record of \<open>a@x.com\<close> in the store, a password that bcrypt
  rejects for its hash, and the read failed by the store, \<open>Login\<close> returns that error, not
  the one wrapping \<open>ErrInvalidCredentials\<close>.
\<close>

theorem failed_read_reports_not_found:
  "store failed_probe_world (slot example_client (getUserKey ''a@x.com''))
     = Some ''id-1|a@x.com|$Pw1!2345'' \<and>
   json_Unmarshal example_lib ''id-1|a@x.com|$Pw1!2345'' = Inr registered_user \<and>
   bcrypt_CompareHashAndPassword example_lib (PasswordHash registered_user) ''wrong'' \<noteq> None \<and>
   Login example_lib example_client failed_probe_world ''a@x.com'' ''wrong'' 0 0 0 =
     (registered_world, Inl (AppError ''Client.Login'' ErrUserNotFound ''user not found'' 404)) \<and>
   IsUserNotFound (AppError ''Client.Login'' ErrUserNotFound ''user not found'' 404) \<and>
   \<not> IsInvalidCredentials (AppError ''Client.Login'' ErrUserNotFound ''user not found'' 404)"
  by (simp add: Login_def getUserByEmail_def kvGet_def Values_Get_def slot_def next_fault_def
        failed_probe_world_def registered_world_def NewAppError_def example_lib_def
        example_unmarshal_def example_compare_def registered_user_def IsUserNotFound_def
        IsInvalidCredentials_def getUserKey_def getUserIDKey_def)

text \<open>
  C4, amended. For a non-empty email and password: when no record is stored under the
  email, \<open>Login\<close> returns the error wrapping \<open>ErrUserNotFound\<close>; when a record is stored under
  the email, the read of it goes through, it decodes to a user, and bcrypt does not accept
  the password for the stored hash, \<open>Login\<close> returns the error wrapping
  \<open>ErrInvalidCredentials\<close>, which does not match \<open>ErrUserNotFound\<close>; and whenever the fetch
  of the record fails (a failed read of a stored record included), \<open>Login\<close> returns the
  error wrapping \<open>ErrUserNotFound\<close>, whatever the password.
\<close>

theorem login_failure_taxonomy:
  assumes ne: "email \<noteq> []" "password \<noteq> []"
  shows "(store w (slot c (getUserKey email)) = None \<longrightarrow>
            Login L c w email password t1 t2 t3 =
              (snd (next_fault w),
               Inl (AppError ''Client.Login'' ErrUserNotFound ''user not found'' 404)))
       \<and> (store w' (slot c (getUserKey email)) = Some d \<and> calls_succeed 1 w' \<and>
          json_Unmarshal L d = Inr user \<and>
          bcrypt_CompareHashAndPassword L (PasswordHash user) password \<noteq> None \<longrightarrow>
            Login L c w' email password t1 t2 t3 =
              (snd (next_fault w'),
               Inl (AppError ''Client.Login'' ErrInvalidCredentials ''invalid credentials'' 401)))
       \<and> (getUserByEmail L c wq email = (wr, Inl err) \<longrightarrow>
            Login L c wq email password t1 t2 t3 =
              (wr, Inl (AppError ''Client.Login'' ErrUserNotFound ''user not found'' 404)))
       \<and> IsUserNotFound (AppError ''Client.Login'' ErrUserNotFound ''user not found'' 404)
       \<and> IsInvalidCredentials
            (AppError ''Client.Login'' ErrInvalidCredentials ''invalid credentials'' 401)
       \<and> \<not> IsUserNotFound
            (AppError ''Client.Login'' ErrInvalidCredentials ''invalid credentials'' 401)"
proof -
  have f: "getUserByEmail L c wq email = (wr, Inl err) \<longrightarrow>
            Login L c wq email password t1 t2 t3 =
              (wr, Inl (AppError ''Client.Login'' ErrUserNotFound ''user not found'' 404))"
    using ne by (simp add: Login_def NewAppError_def)
  have a: "store w (slot c (getUserKey email)) = None \<longrightarrow>
            Login L c w email password t1 t2 t3 =
              (snd (next_fault w),
               Inl (AppError ''Client.Login'' ErrUserNotFound ''user not found'' 404))"
    using ne by (auto simp: Login_def getUserByEmail_missing NewAppError_def)
  have b: "store w' (slot c (getUserKey email)) = Some d \<and> calls_succeed 1 w' \<and>
          json_Unmarshal L d = Inr user \<and>
          bcrypt_CompareHashAndPassword L (PasswordHash user) password \<noteq> None \<longrightarrow>
            Login L c w' email password t1 t2 t3 =
              (snd (next_fault w'),
               Inl (AppError ''Client.Login'' ErrInvalidCredentials ''invalid credentials'' 401))"
  proof (intro impI, elim conjE)
    assume s: "store w' (slot c (getUserKey email)) = Some d" and t: "calls_succeed 1 w'"
      and j: "json_Unmarshal L d = Inr user"
      and b: "bcrypt_CompareHashAndPassword L (PasswordHash user) password \<noteq> None"
    from t have t': "calls_succeed (Suc 0) w'" by simp
    from getUserByEmail_through [OF t' s, of L] j
    have "getUserByEmail L c w' email = (snd (next_fault w'), Inr user)" by simp
    with ne b show "Login L c w' email password t1 t2 t3 =
              (snd (next_fault w'),
               Inl (AppError ''Client.Login'' ErrInvalidCredentials ''invalid credentials'' 401))"
      by (auto simp: Login_def NewAppError_def)
  qed
  show ?thesis using a b f by (simp add: IsUserNotFound_def IsInvalidCredentials_def)
qed

theorem login_failure_taxonomy_witness:
  "''a@x.com'' \<noteq> [] \<and> ''wrong'' \<noteq> [] \<and>
   store empty_world (slot example_client (getUserKey ''a@x.com'')) = None \<and>
   store registered_world (slot example_client (getUserKey ''a@x.com''))
     = Some ''id-1|a@x.com|$Pw1!2345'' \<and>
   calls_succeed 1 registered_world \<and>
   json_Unmarshal example_lib ''id-1|a@x.com|$Pw1!2345'' = Inr registered_user \<and>
   bcrypt_CompareHashAndPassword example_lib (PasswordHash registered_user) ''wrong'' \<noteq> None \<and>
   getUserByEmail example_lib example_client failed_probe_world ''a@x.com'' =
     (registered_world,
      Inl (AppError ''Client.getUserByEmail'' ErrUserNotFound ''user not found'' 404)) \<and>
   Login example_lib example_client empty_world ''a@x.com'' ''wrong'' 0 0 0 =
     (empty_world, Inl (AppError ''Client.Login'' ErrUserNotFound ''user not found'' 404)) \<and>
   Login example_lib example_client registered_world ''a@x.com'' ''wrong'' 0 0 0 =
     (registered_world,
      Inl (AppError ''Client.Login'' ErrInvalidCredentials ''invalid credentials'' 401)) \<and>
   Login example_lib example_client failed_probe_world ''a@x.com'' ''wrong'' 0 0 0 =
     (registered_world, Inl (AppError ''Client.Login'' ErrUserNotFound ''user not found'' 404))"
proof -
  have g: "getUserByEmail example_lib example_client failed_probe_world ''a@x.com'' =
             (registered_world,
              Inl (AppError ''Client.getUserByEmail'' ErrUserNotFound ''user not found'' 404))"
    by (simp add: getUserByEmail_def kvGet_def Values_Get_def slot_def next_fault_def
          failed_probe_world_def registered_world_def NewAppError_def)
  have h1: "''a@x.com'' \<noteq> []" and h2: "''wrong'' \<noteq> []" by simp_all
  have a1: "store empty_world (slot example_client (getUserKey ''a@x.com'')) = None"
    by (simp add: empty_world_def)
  have b1: "store registered_world (slot example_client (getUserKey ''a@x.com''))
              = Some ''id-1|a@x.com|$Pw1!2345''"
    by (simp add: registered_world_def)
  have b2: "calls_succeed 1 registered_world"
    by (simp add: calls_succeed_def registered_world_def)
  have b3: "json_Unmarshal example_lib ''id-1|a@x.com|$Pw1!2345'' = Inr registered_user"
    by (simp add: example_lib_def example_unmarshal_def registered_user_def)
  have b4: "bcrypt_CompareHashAndPassword example_lib (PasswordHash registered_user) ''wrong''
              \<noteq> None"
    by (simp add: example_lib_def example_compare_def registered_user_def)
  have n1: "snd (next_fault empty_world) = empty_world"
    by (simp add: next_fault_def empty_world_def)
  have n2: "snd (next_fault registered_world) = registered_world"
    by (simp add: next_fault_def registered_world_def)
  from login_failure_taxonomy [OF h1 h2, where w = empty_world and c = example_client
         and w' = registered_world and d = "''id-1|a@x.com|$Pw1!2345''" and L = example_lib
         and user = registered_user and ?t1.0 = 0 and ?t2.0 = 0 and ?t3.0 = 0
         and wq = failed_probe_world and wr = registered_world
         and err = "AppError ''Client.getUserByEmail'' ErrUserNotFound ''user not found'' 404"]
       h1 h2 a1 b1 b2 b3 b4 n1 n2 g
  show ?thesis by simp
qed

text \<open>
  C5. During \<open>Register\<close>, if the email-keyed write succeeds and the id-keyed write that
  follows fails with an error \<open>e\<close>, the failure is not swallowed: \<open>Register\<close> returns the
  \<open>AppError\<close> of operation \<open>Client.saveUser\<close>, message "failed to save user ID mapping" and
  code 500 that wraps \<open>e\<close> (errors.go has no sentinel of its own for the inconsistent
  store; this error is how the condition surfaces). The store then holds the serialised
  record under the email key and is otherwise unchanged: a read by email that goes through
  decodes that record, and a lookup by the id returns the error wrapping \<open>ErrUserNotFound\<close>,
  the id having no index entry before.
\<close>

theorem id_index_write_failure:
  assumes ne: "email \<noteq> []" "password \<noteq> []"
    and probe: "kvGet c w (getUserKey email) = (w0, (None, e0))"
    and hash: "bcrypt_GenerateFromPassword L salt password = Inr h"
    and ser: "json_Marshal L \<lparr>ID = uuid, Email = email, PasswordHash = h,
                              CreatedAt = now, UpdatedAt = now\<rparr> = Inr d"
    and wr1: "kvSet c w0 (getUserKey email) d = (w1, None)"
    and wr2: "kvSet c w1 (getUserIDKey uuid) email = (w2, Some e)"
  shows "Register L c w email password uuid salt now =
           (w2, Inl (AppError ''Client.saveUser'' e ''failed to save user ID mapping'' 500))
       \<and> store w2 = (store w)(slot c (getUserKey email) \<mapsto> d)
       \<and> (calls_succeed 1 w2 \<longrightarrow> snd (GetUserByEmail L c w2 email) = json_Unmarshal L d)
       \<and> (store w (slot c (getUserIDKey uuid)) = None \<longrightarrow>
            snd (GetUserByID L c w2 uuid) =
              Inl (AppError ''Client.GetUserByID'' ErrUserNotFound ''user not found'' 404))"
proof -
  let ?u = "\<lparr>ID = uuid, Email = email, PasswordHash = h, CreatedAt = now, UpdatedAt = now\<rparr>"
  have sv: "saveUser L c w0 ?u =
              (w2, Some (AppError ''Client.saveUser'' e ''failed to save user ID mapping'' 500))"
    using ser wr1 wr2 by (simp add: saveUser_def toJSON_def Let_def NewAppError_def)
  have r: "Register L c w email password uuid salt now =
           (w2, Inl (AppError ''Client.saveUser'' e ''failed to save user ID mapping'' 500))"
    by (simp add: Register_probe_empty [OF ne probe] hash sv)
  from kvGet_store [OF probe] kvSet_ok [OF wr1] kvSet_failed [OF wr2]
  have st: "store w2 = (store w)(slot c (getUserKey email) \<mapsto> d)" by simp
  have byEmail: "calls_succeed 1 w2 \<longrightarrow> snd (GetUserByEmail L c w2 email) = json_Unmarshal L d"
  proof
    assume "calls_succeed 1 w2"
    then have t: "calls_succeed (Suc 0) w2" by simp
    have "store w2 (slot c (getUserKey email)) = Some d" by (simp add: st)
    from getUserByEmail_through [OF t this, of L]
    show "snd (GetUserByEmail L c w2 email) = json_Unmarshal L d"
      by (simp add: GetUserByEmail_def)
  qed
  have byID: "store w (slot c (getUserIDKey uuid)) = None \<longrightarrow>
            snd (GetUserByID L c w2 uuid) =
              Inl (AppError ''Client.GetUserByID'' ErrUserNotFound ''user not found'' 404)"
  proof
    assume "store w (slot c (getUserIDKey uuid)) = None"
    then have "store w2 (slot c (getUserIDKey uuid)) = None"
      using keys_differ [of email uuid] by (simp add: st del: keys_differ)
    from GetUserByID_missing [OF this, of L]
    show "snd (GetUserByID L c w2 uuid) =
              Inl (AppError ''Client.GetUserByID'' ErrUserNotFound ''user not found'' 404)"
      by simp
  qed
  from r st byEmail byID show ?thesis by blast
qed

theorem id_index_write_failure_witness:
  "''a@x.com'' \<noteq> [] \<and> ''Pw1!2345'' \<noteq> [] \<and>
   kvGet example_client index_failure_world (getUserKey ''a@x.com'') =
     (index_failure_world\<lparr>faults := [NoFault, ApiError (External ''503 Service Unavailable'')]\<rparr>,
      (None, Some not_found)) \<and>
   bcrypt_GenerateFromPassword example_lib ''salt'' ''Pw1!2345'' = Inr ''$Pw1!2345'' \<and>
   json_Marshal example_lib registered_user = Inr ''id-1|a@x.com|$Pw1!2345'' \<and>
   kvSet example_client
       (index_failure_world\<lparr>faults := [NoFault, ApiError (External ''503 Service Unavailable'')]\<rparr>)
       (getUserKey ''a@x.com'') ''id-1|a@x.com|$Pw1!2345'' =
     (index_failure_result\<lparr>faults := [ApiError (External ''503 Service Unavailable'')]\<rparr>, None) \<and>
   kvSet example_client
       (index_failure_result\<lparr>faults := [ApiError (External ''503 Service Unavailable'')]\<rparr>)
       (getUserIDKey ''id-1'') ''a@x.com'' =
     (index_failure_result, Some (External ''503 Service Unavailable'')) \<and>
   calls_succeed 1 index_failure_result \<and>
   store index_failure_world (slot example_client (getUserIDKey ''id-1'')) = None \<and>
   Register example_lib example_client index_failure_world ''a@x.com'' ''Pw1!2345'' ''id-1''
       ''salt'' 0 =
     (index_failure_result,
      Inl (AppError ''Client.saveUser'' (External ''503 Service Unavailable'')
             ''failed to save user ID mapping'' 500)) \<and>
   snd (GetUserByEmail example_lib example_client index_failure_result ''a@x.com'') =
     Inr registered_user \<and>
   snd (GetUserByID example_lib example_client index_failure_result ''id-1'') =
     Inl (AppError ''Client.GetUserByID'' ErrUserNotFound ''user not found'' 404)"
proof -
  let ?e = "External ''503 Service Unavailable''"
  let ?w0 = "index_failure_world\<lparr>faults := [NoFault, ApiError ?e]\<rparr>"
  let ?w1 = "index_failure_result\<lparr>faults := [ApiError ?e]\<rparr>"
  have h1: "''a@x.com'' \<noteq> []" and h2: "''Pw1!2345'' \<noteq> []" by simp_all
  have h3: "kvGet example_client index_failure_world (getUserKey ''a@x.com'') =
              (?w0, (None, Some not_found))"
    by (simp add: kvGet_def Values_Get_def slot_def next_fault_def index_failure_world_def)
  have h4: "bcrypt_GenerateFromPassword example_lib ''salt'' ''Pw1!2345'' = Inr ''$Pw1!2345''"
    by (simp add: example_lib_def example_generate_def)
  have h5: "json_Marshal example_lib \<lparr>ID = ''id-1'', Email = ''a@x.com'',
              PasswordHash = ''$Pw1!2345'', CreatedAt = 0, UpdatedAt = 0\<rparr>
              = Inr ''id-1|a@x.com|$Pw1!2345''"
    by (simp add: example_lib_def example_marshal_def)
  have h6: "kvSet example_client ?w0 (getUserKey ''a@x.com'') ''id-1|a@x.com|$Pw1!2345'' =
              (?w1, None)"
    by (simp add: kvSet_def Values_Update_def slot_def next_fault_def index_failure_world_def
          index_failure_result_def)
  have h7: "kvSet example_client ?w1 (getUserIDKey ''id-1'') ''a@x.com'' =
              (index_failure_result, Some ?e)"
    by (simp add: kvSet_def Values_Update_def slot_def next_fault_def index_failure_result_def)
  have a1: "calls_succeed 1 index_failure_result"
    by (simp add: calls_succeed_def index_failure_result_def)
  have a2: "store index_failure_world (slot example_client (getUserIDKey ''id-1'')) = None"
    by (simp add: index_failure_world_def)
  have j: "json_Unmarshal example_lib ''id-1|a@x.com|$Pw1!2345'' = Inr registered_user"
    by (simp add: example_lib_def example_unmarshal_def registered_user_def)
  from id_index_write_failure [OF h1 h2 h3 h4 h5 h6 h7]
       h1 h2 h3 h4 h5 h6 h7 a1 a2 j
  show ?thesis by (simp add: registered_user_def)
qed

text \<open>
  C6, as stated, fails. \<open>Register\<close> discards the error of its probe: with the record of
  \<open>a@x.com\<close> in the store and the probe failed by the store, a second registration of the
  email succeeds and replaces the record.
\<close>

theorem failed_probe_overwrites_record:
  "store failed_probe_world (slot example_client (getUserKey ''a@x.com''))
     = Some ''id-1|a@x.com|$Pw1!2345'' \<and>
   Register example_lib example_client failed_probe_world ''a@x.com'' ''Other!Pw9'' ''id-2''
       ''pepper'' 7 =
     (overwritten_world,
      Inr \<lparr>ID = ''id-2'', Email = ''a@x.com'', PasswordHash = ''$Other!Pw9'',
            CreatedAt = 7, UpdatedAt = 7\<rparr>) \<and>
   store overwritten_world (slot example_client (getUserKey ''a@x.com''))
     = Some ''id-2|a@x.com|$Other!Pw9''"
  by (simp add: Register_def kvGet_def Values_Get_def slot_def next_fault_def
        failed_probe_world_def registered_world_def example_lib_def example_generate_def
        saveUser_def toJSON_def example_marshal_def kvSet_def Values_Update_def
        overwritten_world_def getUserKey_def getUserIDKey_def Let_def)

text \<open>
  C6, amended. For a non-empty email and password, when the probe of \<open>Register\<close> goes through:
  if a record is stored under the email, \<open>Register\<close> returns the error wrapping
  \<open>ErrUserAlreadyExists\<close> and the store is unchanged; in particular this is the result of a
  second \<open>Register\<close> with the email in the world a first successful one has left.
\<close>

theorem duplicate_registration_rejected:
  assumes ne: "email \<noteq> []" "password \<noteq> []" and thru: "calls_succeed 1 w"
  shows "(store w (slot c (getUserKey email)) \<noteq> None \<longrightarrow>
            Register L c w email password uuid salt now =
              (snd (next_fault w),
               Inl (AppError ''Client.Register'' ErrUserAlreadyExists ''user already exists'' 409)))
       \<and> (Register L c w0 email password0 uuid0 salt0 now0 = (w, Inr u) \<longrightarrow>
            Register L c w email password uuid salt now =
              (snd (next_fault w),
               Inl (AppError ''Client.Register'' ErrUserAlreadyExists ''user already exists'' 409)))
       \<and> store (snd (next_fault w)) = store w
       \<and> IsUserAlreadyExists
            (AppError ''Client.Register'' ErrUserAlreadyExists ''user already exists'' 409)"
proof -
  from thru have t: "calls_succeed (Suc 0) w" by simp
  have a: "store w (slot c (getUserKey email)) \<noteq> None \<Longrightarrow>
            Register L c w email password uuid salt now =
              (snd (next_fault w),
               Inl (AppError ''Client.Register'' ErrUserAlreadyExists ''user already exists'' 409))"
    using ne by (auto simp: Register_def kvGet_through [OF t] NewAppError_def)
  have b: "Register L c w0 email password0 uuid0 salt0 now0 = (w, Inr u) \<Longrightarrow>
             store w (slot c (getUserKey email)) \<noteq> None"
    by (drule Register_success) auto
  from a b show ?thesis by (auto simp: IsUserAlreadyExists_def)
qed

theorem duplicate_registration_rejected_witness:
  "''a@x.com'' \<noteq> [] \<and> ''Other!Pw9'' \<noteq> [] \<and> calls_succeed 1 registered_world \<and>
   store registered_world (slot example_client (getUserKey ''a@x.com'')) \<noteq> None \<and>
   Register example_lib example_client empty_world ''a@x.com'' ''Pw1!2345'' ''id-1'' ''salt'' 0
     = (registered_world, Inr registered_user) \<and>
   Register example_lib example_client registered_world ''a@x.com'' ''Other!Pw9'' ''id-2''
       ''pepper'' 7 =
     (registered_world,
      Inl (AppError ''Client.Register'' ErrUserAlreadyExists ''user already exists'' 409))"
proof -
  have h1: "''a@x.com'' \<noteq> []" and h2: "''Other!Pw9'' \<noteq> []" by simp_all
  have h3: "calls_succeed 1 registered_world"
    by (simp add: calls_succeed_def registered_world_def)
  have a1: "store registered_world (slot example_client (getUserKey ''a@x.com'')) \<noteq> None"
    by (simp add: registered_world_def)
  have n2: "snd (next_fault registered_world) = registered_world"
    by (simp add: next_fault_def registered_world_def)
  from duplicate_registration_rejected [OF h1 h2 h3, where c = example_client
         and L = example_lib and uuid = "''id-2''" and salt = "''pepper''" and now = 7
         and ?w0.0 = empty_world and ?password0.0 = "''Pw1!2345''" and ?uuid0.0 = "''id-1''"
         and ?salt0.0 = "''salt''" and ?now0.0 = 0 and u = registered_user]
       h1 h2 h3 a1 n2 example_register
  show ?thesis by simp
qed

text \<open>
  C7. Key derivation is deterministic (both are functions) and collision-free:
  \<open>getUserKey\<close> and \<open>getUserIDKey\<close> are injective, and the key of an email never equals the
  key of an id, whatever the id looks like.
\<close>

theorem key_derivation_collision_free:
  "inj getUserKey \<and> inj getUserIDKey \<and> getUserKey email \<noteq> getUserIDKey userID"
  by (simp add: inj_def getUserKey_def getUserIDKey_def)

text \<open>
  C8, as stated, fails. \<open>jwt.NewNumericDate\<close> truncates to whole seconds: a login at 1.5
  seconds after the epoch, with the default lifetime, carries issued-at and not-before of
  1 second, not 1.5, and an expiry of 86401 seconds, while \<open>LoginResponse.ExpiresAt\<close> is
  86401.5 seconds.
\<close>

theorem login_times_counterexample:
  "Login example_lib example_client registered_world ''a@x.com'' ''Pw1!2345''
     1500000000 1500000000 1500000000 = (registered_world, Inr example_response) \<and>
   token_claims (Token example_response) = Some example_claims \<and>
   IssuedAt example_claims \<noteq> Some 1500000000 \<and>
   NotBefore example_claims \<noteq> Some 1500000000 \<and>
   ExpiresAt example_claims \<noteq> Some (Add 1500000000 (jwtExpiry example_client)) \<and>
   ExpiresAt example_claims \<noteq> Some (LoginExpiresAt example_response)"
  using example_login
  by (simp add: token_claims_def example_response_def hs256_token_def example_claims_def
        Add_def example_client_def Hour_def)

text \<open>
  C8, amended. For every successful \<open>Login\<close>, with \<open>t1\<close>, \<open>t2\<close>, \<open>t3\<close> the three successive
  readings of the clock it makes: the claims of the token carry issuedAt = \<open>t2\<close> and
  notBefore = \<open>t3\<close>, each truncated to whole seconds, and expiresAt = \<open>t1\<close> + the configured
  lifetime, truncated to whole seconds. \<open>LoginResponse.ExpiresAt\<close> is \<open>t1\<close> + the configured
  lifetime, not truncated: it is the expiry of the token or less than a second after it.
  When the client was built with \<open>JWTExpirationHours\<close> zero, the lifetime is 24 hours.
\<close>

theorem login_token_times:
  assumes "Login L c w email password t1 t2 t3 = (w', Inr resp)"
  shows "(\<exists>cl. token_claims (Token resp) = Some cl \<and>
             IssuedAt cl = Some (Truncate t2 Second) \<and>
             NotBefore cl = Some (Truncate t3 Second) \<and>
             ExpiresAt cl = Some (Truncate (Add t1 (jwtExpiry c)) Second))
       \<and> LoginExpiresAt resp = Add t1 (jwtExpiry c)
       \<and> Truncate (LoginExpiresAt resp) Second \<le> LoginExpiresAt resp
       \<and> LoginExpiresAt resp < Truncate (LoginExpiresAt resp) Second + Second
       \<and> (JWTExpirationHours opts = 0 \<and> NewClient (Some opts) = Inr c \<longrightarrow>
            jwtExpiry c = 24 * Hour \<and> Add t1 (jwtExpiry c) = t1 + 24 * 3600 * Second)"
proof -
  from Login_success [OF assms] obtain user where
    resp: "resp = \<lparr>Token = hs256_token (jwtSecret c) (login_claims c user t1 t2 t3),
                    LoginExpiresAt = Add t1 (jwtExpiry c),
                    LoginUser = \<lparr>InfoID = ID user, InfoEmail = Email user\<rparr>\<rparr>"
    by blast
  have d: "JWTExpirationHours opts = 0 \<and> NewClient (Some opts) = Inr c \<longrightarrow>
            jwtExpiry c = 24 * Hour \<and> Add t1 (jwtExpiry c) = t1 + 24 * 3600 * Second"
    by (auto simp: NewClient_def Let_def Add_def Hour_def Second_def split: option.splits)
  have a: "\<exists>cl. token_claims (Token resp) = Some cl \<and>
             IssuedAt cl = Some (Truncate t2 Second) \<and>
             NotBefore cl = Some (Truncate t3 Second) \<and>
             ExpiresAt cl = Some (Truncate (Add t1 (jwtExpiry c)) Second)"
    using resp
    by (simp add: token_claims_def hs256_token_def login_claims_def NewNumericDate_def)
  have b: "LoginExpiresAt resp = Add t1 (jwtExpiry c)" using resp by simp
  from Truncate_bounds [of "LoginExpiresAt resp"]
  have t: "Truncate (LoginExpiresAt resp) Second \<le> LoginExpiresAt resp"
          "LoginExpiresAt resp < Truncate (LoginExpiresAt resp) Second + Second"
    by simp_all
  from a b t d show ?thesis by blast
qed

theorem login_token_times_witness:
  "Login example_lib example_client registered_world ''a@x.com'' ''Pw1!2345''
     1500000000 1500000000 1500000000 = (registered_world, Inr example_response) \<and>
   JWTExpirationHours example_options = 0 \<and>
   NewClient (Some example_options) = Inr example_client \<and>
   (\<exists>cl. token_claims (Token example_response) = Some cl \<and>
         IssuedAt cl = Some 1000000000 \<and> NotBefore cl = Some 1000000000 \<and>
         ExpiresAt cl = Some 86401000000000) \<and>
   LoginExpiresAt example_response = 86401500000000 \<and>
   jwtExpiry example_client = 24 * Hour"
proof -
  note h1 = example_login
  have h2: "JWTExpirationHours example_options = 0" by (simp add: example_options_def)
  have h3: "NewClient (Some example_options) = Inr example_client"
    by (simp add: NewClient_def Validate_options_def example_options_def example_client_def
          Let_def)
  from login_token_times [OF h1, of example_options] h1 h2 h3
  show ?thesis
    by (simp add: Truncate_def Second_def Add_def example_client_def Hour_def)
qed

text \<open>
  C9. With an empty email or an empty password, \<open>Register\<close> and \<open>Login\<close> return the error
  wrapping \<open>ErrInvalidInput\<close>. The world comes back as it was, fault schedule included: no
  remote call was made. The result is the same for every \<open>L\<close>: nothing was hashed or
  serialised, and no token is part of it.
\<close>

theorem empty_input_rejected:
  assumes "email = [] \<or> password = []"
  shows "Register L c w email password uuid salt now =
           (w, Inl (AppError ''Client.Register'' ErrInvalidInput
                      ''email and password are required'' 400))
       \<and> Login L c w email password t1 t2 t3 =
           (w, Inl (AppError ''Client.Login'' ErrInvalidInput
                      ''email and password are required'' 400))
       \<and> errors_Is (AppError ''Client.Register'' ErrInvalidInput
                      ''email and password are required'' 400) ErrInvalidInput
       \<and> errors_Is (AppError ''Client.Login'' ErrInvalidInput
                      ''email and password are required'' 400) ErrInvalidInput"
  using assms by (simp add: Register_def Login_def NewAppError_def)

theorem empty_input_rejected_witness:
  "(([]::string) = [] \<or> ''Pw1!2345'' = []) \<and>
   Register example_lib example_client registered_world [] ''Pw1!2345'' ''id-2'' ''salt'' 0 =
     (registered_world, Inl (AppError ''Client.Register'' ErrInvalidInput
                               ''email and password are required'' 400)) \<and>
   Login example_lib example_client registered_world [] ''Pw1!2345'' 0 0 0 =
     (registered_world, Inl (AppError ''Client.Login'' ErrInvalidInput
                               ''email and password are required'' 400))"
  using empty_input_rejected [of "[]" "''Pw1!2345''" example_lib example_client registered_world
          "''id-2''" "''salt''" 0 0 0 0]
  by simp

text \<open>
  C10. The failing input: the record of \<open>a@x.com\<close> is in the store, the get of the probe
  finds it, and the read of the response body breaks after four bytes. \<open>kvGet\<close> returns the
  four bytes together with the error, where \<open>KVGet\<close> and \<open>Get\<close> of internal/kv return \<open>nil\<close>
  data; \<open>Register\<close> of client.go answers that the user exists, while \<open>Service.Register\<close>
  treats the email as unregistered, hashes the password and writes both entries over the
  record.
\<close>

theorem broken_read_reports_existing:
  "store broken_read_world (slot example_client (getUserKey ''a@x.com''))
     = Some ''id-1|a@x.com|$Pw1!2345'' \<and>
   kvGet example_client broken_read_world (getUserKey ''a@x.com'') =
     (registered_world, (Some ''id-1'', Some (External ''unexpected EOF''))) \<and>
   KVGet example_client broken_read_world (getUserKey ''a@x.com'') =
     (registered_world,
      (None, Some (AppError ''Client.KVGet'' (External ''unexpected EOF'')
                     ''failed to read response for key: user:email:a@x.com'' 500))) \<and>
   kv_Get (kvClient example_service) broken_read_world (getUserKey ''a@x.com'') =
     (registered_world,
      (None, Some (apperrors_AppError ''kv.Get'' (External ''unexpected EOF'')
                     ''failed to read response for key: user:email:a@x.com'' 500))) \<and>
   Register example_lib example_client broken_read_world ''a@x.com'' ''Other!Pw9'' ''id-2''
       ''pepper'' 7 =
     (registered_world,
      Inl (AppError ''Client.Register'' ErrUserAlreadyExists ''user already exists'' 409)) \<and>
   Service_Register example_lib example_service broken_read_world
       \<lparr>ReqEmail = ''a@x.com'', ReqPassword = ''Other!Pw9''\<rparr> ''id-2'' ''pepper'' 7 =
     (overwritten_world,
      Inr \<lparr>ID = ''id-2'', Email = ''a@x.com'', PasswordHash = ''$Other!Pw9'',
            CreatedAt = 7, UpdatedAt = 7\<rparr>)"
  by (simp add: Register_def Service_Register_def kvGet_def KVGet_def kv_Get_def kv_Set_def
        Values_Get_def Values_Update_def next_fault_def broken_read_world_def
        registered_world_def overwritten_world_def example_service_def readAll_def
        io_ReadAll_def NewAppError_def apperrors_NewAppError_def slot_def getUserKey_def
        getUserIDKey_def example_lib_def example_generate_def example_marshal_def
        example_client_def ToJSON_def Let_def)

end
